theory Spec2Isabelle
  imports Complex_Main
begin

section \<open>Data model\<close>

text \<open>
  Modelled from the spec: the module \<^verbatim>\<open>types\<close> (imported by both source files as
  \<^verbatim>\<open>./types\<close> and \<^verbatim>\<open>../types\<close>) is not part of the sources. Its enums and object
  types are reconstructed from the members the two components use and from the data
  model of the specification: \<^verbatim>\<open>AppState\<close>, \<^verbatim>\<open>GenerationMode\<close>, \<^verbatim>\<open>Resolution\<close>
  (720p, 1080p, 4K), \<^verbatim>\<open>AspectRatio\<close>, \<^verbatim>\<open>VeoModel\<close>, \<^verbatim>\<open>Speaker\<close> (NONE and three
  named speakers), \<^verbatim>\<open>ImageFile\<close>/\<^verbatim>\<open>VideoFile\<close> (a raw file with its base64 body),
  \<^verbatim>\<open>GenerateVideoParams\<close> and \<^verbatim>\<open>StorySegment\<close>.
\<close>

datatype AppState = IDLE | LOADING | SUCCESS | ERROR

datatype GenerationMode =
  TEXT_TO_VIDEO | FRAMES_TO_VIDEO | REFERENCES_TO_VIDEO | EXTEND_VIDEO

datatype Resolution = P720 | P1080 | P4K

datatype AspectRatio = LANDSCAPE | PORTRAIT

datatype VeoModel = VEO | VEO_FAST

datatype Speaker = NONE | ELENA | ARUN | NARRATOR

text \<open>
  Browser objects that the components only pass around (\<^verbatim>\<open>File\<close>, \<^verbatim>\<open>Blob\<close>, the
  remote \<^verbatim>\<open>Video\<close> handle of the generation service) are opaque names.
\<close>

type_synonym File = string
type_synonym Blob = string
type_synonym Video = string

text \<open>The field \<^verbatim>\<open>file\<close> is named \<open>rawFile\<close>: \<open>file\<close> is reserved.\<close>

record MediaFile =
  rawFile :: File
  base64 :: string

type_synonym ImageFile = MediaFile
type_synonym VideoFile = MediaFile

text \<open>
  The object built by \<^verbatim>\<open>handleSubmit\<close>. Only \<^verbatim>\<open>dialogue\<close> is ever passed as
  \<^verbatim>\<open>undefined\<close> (the value \<open>None\<close>); \<^verbatim>\<open>null\<close> assets are \<open>None\<close> as well.
\<close>

record GenerateVideoParams =
  prompt :: string
  model :: VeoModel
  aspectRatio :: AspectRatio
  resolution :: Resolution
  mode :: GenerationMode
  startFrame :: "ImageFile option"
  endFrame :: "ImageFile option"
  referenceImages :: "ImageFile list"
  styleImage :: "ImageFile option"
  inputVideo :: "VideoFile option"
  inputVideoObject :: "Video option"
  isLooping :: bool
  dialogue :: "string option"
  speaker :: Speaker

text \<open>
  A segment's \<^verbatim>\<open>id\<close> is \<^verbatim>\<open>Date.now().toString()\<close>; the decimal rendering of a
  number is injective, so the identifier is kept as the clock reading itself.
\<close>

record StorySegment =
  seg_id :: nat
  videoUrl :: string
  audioUrl :: "string option"
  seg_prompt :: string
  seg_dialogue :: "string option"
  seg_speaker :: Speaker

section \<open>The application component\<close>

text \<open>The \<^verbatim>\<open>useState\<close> cells of \<^verbatim>\<open>App\<close>.\<close>

record App =
  appState :: AppState
  errorMessage :: "string option"
  timeline :: "StorySegment list"
  currentSegmentId :: "nat option"
  lastConfig :: "GenerateVideoParams option"
  lastVideoObject :: "Video option"
  lastVideoBlob :: "Blob option"
  showApiKeyDialog :: bool
  initialFormValues :: "GenerateVideoParams option"

definition initialApp :: App where
  "initialApp =
     \<lparr>appState = IDLE, errorMessage = None, timeline = [], currentSegmentId = None,
      lastConfig = None, lastVideoObject = None, lastVideoBlob = None,
      showApiKeyDialog = False, initialFormValues = None\<rparr>"

subsection \<open>Strings\<close>

text \<open>
  \<^verbatim>\<open>String.prototype.includes\<close> (\<open>includes\<close> is reserved): \<open>includesStr s p\<close> holds when \<open>p\<close> occurs in \<open>s\<close> as a
  contiguous run of characters. \<open>startsWith s p\<close> compares \<open>p\<close> with the front of \<open>s\<close>.
\<close>

fun startsWith :: "string \<Rightarrow> string \<Rightarrow> bool" where
  "startsWith s [] = True"
| "startsWith [] (c # p) = False"
| "startsWith (d # s) (c # p) = (d = c \<and> startsWith s p)"

fun includesStr :: "string \<Rightarrow> string \<Rightarrow> bool" where
  "includesStr [] p = startsWith [] p"
| "includesStr (d # s) p = (startsWith (d # s) p \<or> includesStr s p)"

text \<open>
  \<^verbatim>\<open>String.prototype.toLowerCase\<close> on the letters A to Z; every other character is
  kept. (No character outside ASCII has a lower-case form that can take part in an
  occurrence of an ASCII pattern, apart from U+0130, whose lower-case form is \<open>i\<close>
  followed by a combining dot.)
\<close>

definition lowerChar :: "char \<Rightarrow> char" where
  "lowerChar c =
     (case map_of (zip ''ABCDEFGHIJKLMNOPQRSTUVWXYZ'' ''abcdefghijklmnopqrstuvwxyz'') c of
        Some d \<Rightarrow> d
      | None \<Rightarrow> c)"

definition toLowerCase :: "string \<Rightarrow> string" where
  "toLowerCase s = map lowerChar s"

text \<open>JavaScript truthiness of an optional string: defined and not empty.\<close>

definition truthy :: "string option \<Rightarrow> bool" where
  "truthy d = (case d of None \<Rightarrow> False | Some t \<Rightarrow> t \<noteq> [])"

subsection \<open>The world outside the component\<close>

text \<open>
  A value caught by \<^verbatim>\<open>catch\<close>: an \<^verbatim>\<open>Error\<close> with its message, or anything else.
\<close>

datatype thrown = ErrorObj string | NonError

text \<open>What \<^verbatim>\<open>await window.aistudio.hasSelectedApiKey()\<close> does.\<close>

datatype check = Returns bool | Throws

text \<open>
  Modelled from the spec: the module \<^verbatim>\<open>services/geminiService\<close> is not part of the
  sources. \<^verbatim>\<open>generateVideo\<close> resolves to an object with the fields \<^verbatim>\<open>objectUrl\<close>,
  \<^verbatim>\<open>blob\<close> and \<^verbatim>\<open>video\<close> that \<^verbatim>\<open>handleGenerate\<close> destructures, or rejects;
  \<^verbatim>\<open>generateSpeech\<close> resolves to \<^verbatim>\<open>null\<close> or an object whose \<^verbatim>\<open>audioUrl\<close> is read,
  or rejects.
\<close>

record VideoGen =
  objectUrl :: string
  blob :: Blob
  video :: Video

record SpeechGen =
  speechAudioUrl :: "string option"

text \<open>The calls a handler makes to its collaborators, in the order it makes them.\<close>

datatype call =
  HasSelectedApiKey
| OpenSelectKey
| GenerateVideo GenerateVideoParams
| GenerateSpeech string Speaker

text \<open>
  Everything one run of a handler reads from outside: whether \<^verbatim>\<open>window.aistudio\<close>
  exists and what its check does, how the two generation promises settle, which of
  two rejections comes first (\<^verbatim>\<open>Promise.all\<close> rejects with the first one), the clock,
  and whether \<^verbatim>\<open>openSelectKey\<close> or the \<^verbatim>\<open>File\<close> constructor throw.
\<close>

record world =
  aistudio :: "check option"
  videoOutcome :: "thrown + VideoGen"
  speechOutcome :: "thrown + SpeechGen option"
  speechRejectsFirst :: bool
  now :: nat
  openSelectKeyThrows :: bool
  fileCtorThrows :: "thrown option"

subsection \<open>Credential check at start\<close>

definition checkApiKey :: "world \<Rightarrow> App \<Rightarrow> App \<times> call list" where
  "checkApiKey w s =
     (case aistudio w of
        None \<Rightarrow> (s, [])
      | Some (Returns b) \<Rightarrow>
          (if \<not> b then s\<lparr>showApiKeyDialog := True\<rparr> else s, [HasSelectedApiKey])
      | Some Throws \<Rightarrow> (s\<lparr>showApiKeyDialog := True\<rparr>, [HasSelectedApiKey]))"

definition showStatusError :: "string \<Rightarrow> App \<Rightarrow> App" where
  "showStatusError message s = s\<lparr>errorMessage := Some message, appState := ERROR\<rparr>"

subsection \<open>One generation attempt\<close>

text \<open>
  The speech call is made when \<^verbatim>\<open>params.dialogue && params.speaker &&
  params.speaker !== Speaker.NONE\<close>. The strings behind the members of \<^verbatim>\<open>Speaker\<close>
  are displayed as speaker names, so a named speaker is truthy; for \<open>NONE\<close> the last
  conjunct decides.
\<close>

definition speechRequested :: "GenerateVideoParams \<Rightarrow> bool" where
  "speechRequested params = (truthy (dialogue params) \<and> speaker params \<noteq> NONE)"

definition dialogueText :: "GenerateVideoParams \<Rightarrow> string" where
  "dialogueText params = (case dialogue params of None \<Rightarrow> [] | Some t \<Rightarrow> t)"

definition launched :: "GenerateVideoParams \<Rightarrow> call list" where
  "launched params =
     GenerateVideo params #
     (if speechRequested params
      then [GenerateSpeech (dialogueText params) (speaker params)] else [])"

text \<open>
  \<^verbatim>\<open>await Promise.all([videoPromise, speechPromise])\<close>, where the speech promise is
  \<^verbatim>\<open>Promise.resolve(null)\<close> when no speech was requested.
\<close>

definition promiseAll ::
  "world \<Rightarrow> GenerateVideoParams \<Rightarrow> thrown + (VideoGen \<times> SpeechGen option)" where
  "promiseAll w params =
     (let speechPromise = (if speechRequested params then speechOutcome w else Inr None)
      in case videoOutcome w of
           Inr v \<Rightarrow> (case speechPromise of Inr r \<Rightarrow> Inr (v, r) | Inl y \<Rightarrow> Inl y)
         | Inl x \<Rightarrow>
             (case speechPromise of
                Inr r \<Rightarrow> Inl x
              | Inl y \<Rightarrow> Inl (if speechRejectsFirst w then y else x)))"

definition newSegment ::
  "world \<Rightarrow> GenerateVideoParams \<Rightarrow> VideoGen \<Rightarrow> SpeechGen option \<Rightarrow> StorySegment" where
  "newSegment w params videoResult speechResult =
     \<lparr>seg_id = now w,
      videoUrl = objectUrl videoResult,
      audioUrl = (case speechResult of None \<Rightarrow> None | Some r \<Rightarrow> speechAudioUrl r),
      seg_prompt = prompt params,
      seg_dialogue = dialogue params,
      seg_speaker = speaker params\<rparr>"

text \<open>
  The \<^verbatim>\<open>catch\<close> block: the message of the caught value, then the two mutable locals
  \<^verbatim>\<open>userFriendlyMessage\<close> and \<^verbatim>\<open>shouldOpenDialog\<close> as the \<^verbatim>\<open>if\<close>/\<^verbatim>\<open>else if\<close> leaves
  them.
\<close>

definition caughtMessage :: "thrown \<Rightarrow> string" where
  "caughtMessage e =
     (case e of ErrorObj m \<Rightarrow> m | NonError \<Rightarrow> ''An unknown error occurred.'')"

definition modelNotFoundMessage :: string where
  "modelNotFoundMessage =
     ''Model not found. This can be caused by an invalid API key or permission issues. Please check your API key.''"

definition keyInvalidMessage :: string where
  "keyInvalidMessage =
     ''Your API key is invalid or lacks permissions. Please select a valid, billing-enabled API key.''"

definition classifyError :: "string \<Rightarrow> string \<times> bool" where
  "classifyError rawMessage =
     (let userFriendlyMessage = ''Generation failed: '' @ rawMessage;
          shouldOpenDialog = False
      in if includesStr rawMessage ''Requested entity was not found.''
         then (modelNotFoundMessage, True)
         else if includesStr rawMessage ''API_KEY_INVALID''
                 \<or> includesStr rawMessage ''API key not valid''
                 \<or> includesStr (toLowerCase rawMessage) ''permission denied''
                 \<or> includesStr rawMessage ''403''
         then (keyInvalidMessage, True)
         else (userFriendlyMessage, shouldOpenDialog))"

definition onFailure :: "thrown \<Rightarrow> App \<Rightarrow> App" where
  "onFailure e s =
     (let (userFriendlyMessage, shouldOpenDialog) = classifyError (caughtMessage e);
          s1 = s\<lparr>errorMessage := Some userFriendlyMessage, appState := ERROR\<rparr>
      in if shouldOpenDialog then s1\<lparr>showApiKeyDialog := True\<rparr> else s1)"

definition onSuccess ::
  "world \<Rightarrow> GenerateVideoParams \<Rightarrow> VideoGen \<Rightarrow> SpeechGen option \<Rightarrow> App \<Rightarrow> App" where
  "onSuccess w params videoResult speechResult s =
     (let seg = newSegment w params videoResult speechResult
      in s\<lparr>timeline := timeline s @ [seg],
           currentSegmentId := Some (seg_id seg),
           lastVideoBlob := Some (blob videoResult),
           lastVideoObject := Some (video videoResult),
           appState := SUCCESS\<rparr>)"

text \<open>
  \<^verbatim>\<open>handleGenerate\<close>: the credential guard, the four setters before the \<^verbatim>\<open>try\<close>, the
  two calls, the join, and the success or failure branch. The result is the state
  when the handler has finished, with the calls it made.
\<close>

definition handleGenerate :: "world \<Rightarrow> GenerateVideoParams \<Rightarrow> App \<Rightarrow> App \<times> call list" where
  "handleGenerate w params s =
     (let guard =
            (case aistudio w of
               None \<Rightarrow> (True, [])
             | Some (Returns b) \<Rightarrow> (b, [HasSelectedApiKey])
             | Some Throws \<Rightarrow> (False, [HasSelectedApiKey]))
      in if \<not> fst guard then (s\<lparr>showApiKeyDialog := True\<rparr>, snd guard)
         else
           (let s1 = s\<lparr>appState := LOADING, errorMessage := None,
                       lastConfig := Some params, initialFormValues := None\<rparr>
            in (case promiseAll w params of
                  Inr (videoResult, speechResult) \<Rightarrow>
                    onSuccess w params videoResult speechResult s1
                | Inl e \<Rightarrow> onFailure e s1,
                snd guard @ launched params)))"

subsection \<open>The other handlers\<close>

definition handleRetry :: "world \<Rightarrow> App \<Rightarrow> App \<times> call list" where
  "handleRetry w s =
     (case lastConfig s of Some c \<Rightarrow> handleGenerate w c s | None \<Rightarrow> (s, []))"

text \<open>
  \<^verbatim>\<open>handleApiKeyDialogContinue\<close> reads \<^verbatim>\<open>appState\<close> and \<^verbatim>\<open>lastConfig\<close> as they were
  when the dialog was rendered; a throwing \<^verbatim>\<open>openSelectKey\<close> ends the handler.
\<close>

definition handleApiKeyDialogContinue :: "world \<Rightarrow> App \<Rightarrow> App \<times> call list" where
  "handleApiKeyDialogContinue w s =
     (let s1 = s\<lparr>showApiKeyDialog := False\<rparr>;
          calls = (case aistudio w of None \<Rightarrow> [] | Some c \<Rightarrow> [OpenSelectKey])
      in if aistudio w \<noteq> None \<and> openSelectKeyThrows w then (s1, calls)
         else if appState s = ERROR \<and> lastConfig s \<noteq> None
         then (let (s2, more) = handleRetry w s1 in (s2, calls @ more))
         else (s1, calls))"

definition handleNewVideo :: "App \<Rightarrow> App" where
  "handleNewVideo s =
     s\<lparr>appState := IDLE, errorMessage := None, lastConfig := None,
       lastVideoObject := None, lastVideoBlob := None, initialFormValues := None,
       timeline := [], currentSegmentId := None\<rparr>"

definition handleAddScene :: "App \<Rightarrow> App" where
  "handleAddScene s =
     (case lastConfig s of
        Some c \<Rightarrow>
          (let nextParams =
                 c\<lparr>prompt := [], dialogue := Some [],
                   mode := (if mode c = EXTEND_VIDEO then TEXT_TO_VIDEO else mode c),
                   startFrame := None, endFrame := None,
                   inputVideo := None, inputVideoObject := None,
                   referenceImages := referenceImages c, styleImage := styleImage c,
                   isLooping := False\<rparr>
           in s\<lparr>initialFormValues := Some nextParams, appState := IDLE,
                errorMessage := None\<rparr>)
      | None \<Rightarrow> handleNewVideo s)"

definition handleTryAgainFromError :: "App \<Rightarrow> App" where
  "handleTryAgainFromError s =
     (case lastConfig s of
        Some c \<Rightarrow> s\<lparr>initialFormValues := Some c, appState := IDLE, errorMessage := None\<rparr>
      | None \<Rightarrow> handleNewVideo s)"

definition handleExtend :: "world \<Rightarrow> App \<Rightarrow> App" where
  "handleExtend w s =
     (case (lastConfig s, lastVideoBlob s, lastVideoObject s) of
        (Some c, Some b, Some v) \<Rightarrow>
          (case fileCtorThrows w of
             Some e \<Rightarrow>
               showStatusError (''Failed to prepare video for extension: '' @ caughtMessage e) s
           | None \<Rightarrow>
               (let videoFile = \<lparr>rawFile = ''last_video.mp4'', base64 = []\<rparr>
                in s\<lparr>initialFormValues :=
                       Some (c\<lparr>mode := EXTEND_VIDEO, prompt := [],
                               inputVideo := Some videoFile, inputVideoObject := Some v,
                               resolution := P720, startFrame := None, endFrame := None,
                               referenceImages := [], styleImage := None,
                               isLooping := False, dialogue := Some [],
                               speaker := NONE\<rparr>),
                     appState := IDLE, errorMessage := None\<rparr>))
      | _ \<Rightarrow> s)"

text \<open>
  \<^verbatim>\<open>const canExtend = lastConfig?.resolution === Resolution.P720\<close>: with no last
  config the left side is \<^verbatim>\<open>undefined\<close> and the comparison is false.
\<close>

definition canExtend :: "App \<Rightarrow> bool" where
  "canExtend s =
     (case lastConfig s of None \<Rightarrow> False | Some c \<Rightarrow> resolution c = P720)"

text \<open>
  \<^verbatim>\<open>const currentSegment = timeline.find(s => s.id === currentSegmentId)\<close>; no
  segment has the id \<^verbatim>\<open>null\<close>.
\<close>

definition currentSegment :: "App \<Rightarrow> StorySegment option" where
  "currentSegment s =
     (case currentSegmentId s of
        None \<Rightarrow> None
      | Some i \<Rightarrow> find (\<lambda>seg. seg_id seg = i) (timeline s))"

text \<open>
  The states of \<^verbatim>\<open>App\<close>: after the mount effect, and after any handler has run in
  any world. \<^verbatim>\<open>handleGenerate\<close> receives whatever the form submits.
\<close>

inductive appReachable :: "App \<Rightarrow> bool" where
  start: "appReachable (fst (checkApiKey w initialApp))"
| generate: "appReachable s \<Longrightarrow> appReachable (fst (handleGenerate w params s))"
| retry: "appReachable s \<Longrightarrow> appReachable (fst (handleRetry w s))"
| continue: "appReachable s \<Longrightarrow> appReachable (fst (handleApiKeyDialogContinue w s))"
| newVideo: "appReachable s \<Longrightarrow> appReachable (handleNewVideo s)"
| addScene: "appReachable s \<Longrightarrow> appReachable (handleAddScene s)"
| tryAgain: "appReachable s \<Longrightarrow> appReachable (handleTryAgainFromError s)"
| extend: "appReachable s \<Longrightarrow> appReachable (handleExtend w s)"

section \<open>The prompt form\<close>

text \<open>
  \<^verbatim>\<open>String.prototype.trim\<close> removes white space and line terminators from both
  ends. A character of a string is a code unit below 256; among these the method
  strips exactly TAB, LF, VT, FF, CR, SPACE and NO-BREAK SPACE (U+00A0). The white
  space it strips beyond this range (U+1680, U+2000 to U+200A, U+2028, U+2029, U+202F,
  U+205F, U+3000, U+FEFF) has no character in this type.
\<close>

definition isWhiteSpace :: "char \<Rightarrow> bool" where
  "isWhiteSpace c =
     (c \<in> set [CHR 0x09, CHR 0x0A, CHR 0x0B, CHR 0x0C, CHR 0x0D, CHR 0x20, CHR 0xA0])"

definition trim :: "string \<Rightarrow> string" where
  "trim s = rev (dropWhile isWhiteSpace (rev (dropWhile isWhiteSpace s)))"

text \<open>
  The \<^verbatim>\<open>useState\<close> cells of \<^verbatim>\<open>PromptForm\<close>. They carry the prefix \<open>f_\<close> where the
  source gives a cell the name of a key of \<^verbatim>\<open>GenerateVideoParams\<close>.
\<close>

record PromptForm =
  f_prompt :: string
  f_model :: VeoModel
  f_aspectRatio :: AspectRatio
  f_resolution :: Resolution
  generationMode :: GenerationMode
  f_startFrame :: "ImageFile option"
  f_endFrame :: "ImageFile option"
  f_referenceImages :: "ImageFile list"
  f_styleImage :: "ImageFile option"
  f_inputVideo :: "VideoFile option"
  f_inputVideoObject :: "Video option"
  f_isLooping :: bool
  f_dialogue :: string
  f_speaker :: Speaker
  showDialogueInput :: bool
  isSettingsOpen :: bool
  isModeSelectorOpen :: bool

text \<open>The initial values of the cells, from the prop \<^verbatim>\<open>initialValues\<close>.\<close>

definition initialForm :: "GenerateVideoParams option \<Rightarrow> PromptForm" where
  "initialForm initialValues =
     (case initialValues of
        None \<Rightarrow>
          \<lparr>f_prompt = [], f_model = VEO_FAST, f_aspectRatio = LANDSCAPE,
           f_resolution = P720, generationMode = TEXT_TO_VIDEO,
           f_startFrame = None, f_endFrame = None, f_referenceImages = [],
           f_styleImage = None, f_inputVideo = None, f_inputVideoObject = None,
           f_isLooping = False, f_dialogue = [], f_speaker = NONE,
           showDialogueInput = False, isSettingsOpen = False,
           isModeSelectorOpen = False\<rparr>
      | Some v \<Rightarrow>
          \<lparr>f_prompt = prompt v, f_model = model v, f_aspectRatio = aspectRatio v,
           f_resolution = resolution v, generationMode = mode v,
           f_startFrame = startFrame v, f_endFrame = endFrame v,
           f_referenceImages = referenceImages v, f_styleImage = styleImage v,
           f_inputVideo = inputVideo v, f_inputVideoObject = inputVideoObject v,
           f_isLooping = isLooping v, f_dialogue = dialogueText v,
           f_speaker = speaker v, showDialogueInput = False, isSettingsOpen = False,
           isModeSelectorOpen = False\<rparr>)"

text \<open>The effect on \<^verbatim>\<open>[initialValues]\<close>.\<close>

definition initialValuesEffect :: "GenerateVideoParams option \<Rightarrow> PromptForm \<Rightarrow> PromptForm" where
  "initialValuesEffect initialValues f =
     (case initialValues of
        None \<Rightarrow> f
      | Some v \<Rightarrow>
          (let f1 = f\<lparr>f_prompt := prompt v, f_model := model v,
                      f_aspectRatio := aspectRatio v, f_resolution := resolution v,
                      generationMode := mode v, f_startFrame := startFrame v,
                      f_endFrame := endFrame v, f_referenceImages := referenceImages v,
                      f_styleImage := styleImage v, f_inputVideo := inputVideo v,
                      f_inputVideoObject := inputVideoObject v,
                      f_isLooping := isLooping v, f_dialogue := dialogueText v,
                      f_speaker := speaker v\<rparr>
           in if truthy (dialogue v) \<or> speaker v \<noteq> NONE
              then f1\<lparr>showDialogueInput := True\<rparr> else f1))"

text \<open>
  The effect on \<^verbatim>\<open>[generationMode]\<close>. Its two tests read the mode of the render that
  scheduled it, the argument \<open>m\<close>.
\<close>

definition modeEffect :: "GenerationMode \<Rightarrow> PromptForm \<Rightarrow> PromptForm" where
  "modeEffect m f =
     (let f1 = (if m = EXTEND_VIDEO then f\<lparr>f_resolution := P720\<rparr> else f)
      in if m = REFERENCES_TO_VIDEO
         then f1\<lparr>f_model := VEO, f_aspectRatio := LANDSCAPE, f_resolution := P720\<rparr>
         else f1)"

text \<open>Mounting: the first render, then both effects in the order of the source.\<close>

definition mountForm :: "GenerateVideoParams option \<Rightarrow> PromptForm" where
  "mountForm initialValues =
     (let f0 = initialForm initialValues
      in modeEffect (generationMode f0) (initialValuesEffect initialValues f0))"

definition handleSubmit :: "PromptForm \<Rightarrow> GenerateVideoParams" where
  "handleSubmit f =
     \<lparr>prompt = f_prompt f, model = f_model f, aspectRatio = f_aspectRatio f,
      resolution = f_resolution f, mode = generationMode f,
      startFrame = f_startFrame f, endFrame = f_endFrame f,
      referenceImages = f_referenceImages f, styleImage = f_styleImage f,
      inputVideo = f_inputVideo f, inputVideoObject = f_inputVideoObject f,
      isLooping = f_isLooping f,
      dialogue = (if showDialogueInput f then Some (f_dialogue f) else None),
      speaker = (if showDialogueInput f then f_speaker f else NONE)\<rparr>"

definition handleSelectMode :: "GenerationMode \<Rightarrow> PromptForm \<Rightarrow> PromptForm" where
  "handleSelectMode m f =
     f\<lparr>generationMode := m, isModeSelectorOpen := False,
       f_startFrame := None, f_endFrame := None, f_referenceImages := [],
       f_styleImage := None, f_inputVideo := None, f_inputVideoObject := None,
       f_isLooping := False\<rparr>"

definition selectableModes :: "GenerationMode list" where
  "selectableModes = [TEXT_TO_VIDEO, FRAMES_TO_VIDEO, REFERENCES_TO_VIDEO]"

definition isExtendMode :: "PromptForm \<Rightarrow> bool" where
  "isExtendMode f = (generationMode f = EXTEND_VIDEO)"

definition isReferenceMode :: "PromptForm \<Rightarrow> bool" where
  "isReferenceMode f = (generationMode f = REFERENCES_TO_VIDEO)"

text \<open>
  The \<^verbatim>\<open>switch\<close> that computes \<^verbatim>\<open>isSubmitDisabled\<close> and \<^verbatim>\<open>tooltipText\<close>; the submit
  button carries \<^verbatim>\<open>disabled={isSubmitDisabled}\<close>.
\<close>

definition submitGate :: "PromptForm \<Rightarrow> bool \<times> string" where
  "submitGate f =
     (case generationMode f of
        TEXT_TO_VIDEO \<Rightarrow>
          (let isSubmitDisabled = (trim (f_prompt f) = [])
           in (isSubmitDisabled,
               if isSubmitDisabled then ''Please enter a visual description.'' else []))
      | FRAMES_TO_VIDEO \<Rightarrow>
          (let isSubmitDisabled = (f_startFrame f = None)
           in (isSubmitDisabled,
               if isSubmitDisabled then ''A start frame is required.'' else []))
      | REFERENCES_TO_VIDEO \<Rightarrow>
          (let hasNoPrompt = (trim (f_prompt f) = []);
               hasNoAssets = (length (f_referenceImages f) = 0)
           in (hasNoPrompt \<or> hasNoAssets,
               if hasNoPrompt \<and> hasNoAssets
               then ''Please enter a prompt and add at least one asset.''
               else if hasNoPrompt then ''Please enter a prompt.''
               else if hasNoAssets then ''At least one reference asset is required.''
               else []))
      | EXTEND_VIDEO \<Rightarrow>
          (let isSubmitDisabled = (f_inputVideoObject f = None)
           in (isSubmitDisabled,
               if isSubmitDisabled
               then ''An input video from a previous generation is required to extend.''
               else [])))"

definition isSubmitDisabled :: "PromptForm \<Rightarrow> bool" where
  "isSubmitDisabled f = fst (submitGate f)"

definition tooltipText :: "PromptForm \<Rightarrow> string" where
  "tooltipText f = snd (submitGate f)"

text \<open>
  What the user can do to the form. An input that is not rendered, or that is
  rendered with \<^verbatim>\<open>disabled\<close>, fires no event: the handler leaves the state as it
  is. Uploads call their \<^verbatim>\<open>onSelect\<close> when the file has been read.
\<close>

datatype form_event =
  SelectMode GenerationMode
| ChangeModel VeoModel
| ChangeAspectRatio AspectRatio
| ChangeResolution Resolution
| ChangePrompt string
| SelectStartFrame ImageFile
| RemoveStartFrame
| SelectEndFrame ImageFile
| RemoveEndFrame
| ChangeLooping bool
| AddReference ImageFile
| RemoveReference nat
| SelectInputVideo VideoFile
| RemoveInputVideo
| ToggleDialogue
| ChangeSpeaker Speaker
| ChangeDialogue string
| ToggleSettings
| ToggleModeSelector
| ClickOutside

fun removeAt :: "nat \<Rightarrow> 'a list \<Rightarrow> 'a list" where
  "removeAt i [] = []"
| "removeAt 0 (x # xs) = xs"
| "removeAt (Suc i) (x # xs) = x # removeAt i xs"

fun formHandler :: "form_event \<Rightarrow> PromptForm \<Rightarrow> PromptForm" where
  "formHandler (SelectMode m) f =
     (if isModeSelectorOpen f \<and> m \<in> set selectableModes then handleSelectMode m f else f)"
| "formHandler (ChangeModel v) f =
     (if isSettingsOpen f \<and> \<not> isReferenceMode f then f\<lparr>f_model := v\<rparr> else f)"
| "formHandler (ChangeAspectRatio a) f =
     (if isSettingsOpen f \<and> \<not> isReferenceMode f then f\<lparr>f_aspectRatio := a\<rparr> else f)"
| "formHandler (ChangeResolution r) f =
     (if isSettingsOpen f \<and> \<not> (isExtendMode f \<or> isReferenceMode f)
      then f\<lparr>f_resolution := r\<rparr> else f)"
| "formHandler (ChangePrompt t) f = f\<lparr>f_prompt := t\<rparr>"
| "formHandler (SelectStartFrame img) f = f\<lparr>f_startFrame := Some img\<rparr>"
| "formHandler RemoveStartFrame f = f\<lparr>f_startFrame := None, f_isLooping := False\<rparr>"
| "formHandler (SelectEndFrame img) f = f\<lparr>f_endFrame := Some img\<rparr>"
| "formHandler RemoveEndFrame f = f\<lparr>f_endFrame := None\<rparr>"
| "formHandler (ChangeLooping b) f =
     (if generationMode f = FRAMES_TO_VIDEO \<and> f_startFrame f \<noteq> None \<and> f_endFrame f = None
      then f\<lparr>f_isLooping := b\<rparr> else f)"
| "formHandler (AddReference img) f =
     f\<lparr>f_referenceImages := f_referenceImages f @ [img]\<rparr>"
| "formHandler (RemoveReference i) f =
     f\<lparr>f_referenceImages := removeAt i (f_referenceImages f)\<rparr>"
| "formHandler (SelectInputVideo v) f = f\<lparr>f_inputVideo := Some v\<rparr>"
| "formHandler RemoveInputVideo f = f\<lparr>f_inputVideo := None, f_inputVideoObject := None\<rparr>"
| "formHandler ToggleDialogue f = f\<lparr>showDialogueInput := \<not> showDialogueInput f\<rparr>"
| "formHandler (ChangeSpeaker sp) f =
     (if showDialogueInput f then f\<lparr>f_speaker := sp\<rparr> else f)"
| "formHandler (ChangeDialogue t) f =
     (if showDialogueInput f then f\<lparr>f_dialogue := t\<rparr> else f)"
| "formHandler ToggleSettings f = f\<lparr>isSettingsOpen := \<not> isSettingsOpen f\<rparr>"
| "formHandler ToggleModeSelector f = f\<lparr>isModeSelectorOpen := \<not> isModeSelectorOpen f\<rparr>"
| "formHandler ClickOutside f = f\<lparr>isModeSelectorOpen := False\<rparr>"

text \<open>
  After a handler the form renders again, and the effect on \<^verbatim>\<open>[generationMode]\<close>
  runs if that cell has changed. Its own updates change no dependency of an effect.
\<close>

definition afterRender :: "PromptForm \<Rightarrow> PromptForm \<Rightarrow> PromptForm" where
  "afterRender before f =
     (if generationMode f \<noteq> generationMode before then modeEffect (generationMode f) f
      else f)"

definition formStep :: "form_event \<Rightarrow> PromptForm \<Rightarrow> PromptForm" where
  "formStep e f = afterRender f (formHandler e f)"

inductive formReachable :: "PromptForm \<Rightarrow> bool" where
  mounted: "formReachable (mountForm initialValues)"
| stepped: "formReachable f \<Longrightarrow> formReachable (formStep e f)"

text \<open>
  \<^verbatim>\<open>extractFrameFromVideo\<close>, the handler of \<^verbatim>\<open>loadeddata\<close>: the value assigned to
  \<^verbatim>\<open>video.currentTime\<close>. The duration is a finite number of seconds, taken as a real
  number; the rounding of the subtraction to a double is not modelled.
\<close>

definition seekTarget :: "real \<Rightarrow> real" where
  "seekTarget duration = (if duration > 0.5 then duration - 0.1 else 0)"

section \<open>The result view\<close>

text \<open>
  The playback cells of \<^verbatim>\<open>VideoResult\<close>. The props \<^verbatim>\<open>timeline\<close> and
  \<^verbatim>\<open>currentSegment\<close> are the arguments \<open>segs\<close> and \<open>cur\<close> of every function.
\<close>

record VideoResult =
  isPlayingStory :: bool
  storyIndex :: nat
  viewingSegment :: StorySegment

definition mountResult :: "StorySegment \<Rightarrow> VideoResult" where
  "mountResult cur = \<lparr>isPlayingStory = False, storyIndex = 0, viewingSegment = cur\<rparr>"

definition handleVideoEnded ::
  "StorySegment list \<Rightarrow> StorySegment \<Rightarrow> VideoResult \<Rightarrow> VideoResult" where
  "handleVideoEnded segs cur v =
     (if isPlayingStory v
      then (if int (storyIndex v) < int (length segs) - 1
            then v\<lparr>storyIndex := storyIndex v + 1\<rparr>
            else v\<lparr>isPlayingStory := False, storyIndex := 0, viewingSegment := cur\<rparr>)
      else v)"

definition togglePlayStory :: "StorySegment \<Rightarrow> VideoResult \<Rightarrow> VideoResult" where
  "togglePlayStory cur v =
     (if isPlayingStory v
      then v\<lparr>isPlayingStory := False, viewingSegment := cur\<rparr>
      else v\<lparr>storyIndex := 0, isPlayingStory := True\<rparr>)"

datatype result_event = TogglePlayStory | VideoEnded | ClickSegment nat

text \<open>
  The play button is rendered when \<^verbatim>\<open>timeline.length > 1\<close>; a timeline card sets the
  viewed segment unless the story is playing.
\<close>

fun resultHandler ::
  "StorySegment list \<Rightarrow> StorySegment \<Rightarrow> result_event \<Rightarrow> VideoResult \<Rightarrow> VideoResult" where
  "resultHandler segs cur TogglePlayStory v =
     (if length segs > 1 then togglePlayStory cur v else v)"
| "resultHandler segs cur VideoEnded v = handleVideoEnded segs cur v"
| "resultHandler segs cur (ClickSegment i) v =
     (if i < length segs \<and> \<not> isPlayingStory v then v\<lparr>viewingSegment := segs ! i\<rparr> else v)"

text \<open>
  The two effects that set the viewed segment, run after a render in which one of
  their dependencies has changed (the props stay as they are while the view is
  shown): the first on \<^verbatim>\<open>[currentSegment, isPlayingStory]\<close>, the second on
  \<^verbatim>\<open>[isPlayingStory, storyIndex, timeline]\<close>.
\<close>

definition viewEffects ::
  "StorySegment list \<Rightarrow> StorySegment \<Rightarrow> VideoResult \<Rightarrow> VideoResult \<Rightarrow> VideoResult" where
  "viewEffects segs cur before v =
     (let playingChanged = (isPlayingStory v \<noteq> isPlayingStory before);
          indexChanged = (storyIndex v \<noteq> storyIndex before);
          v1 = (if playingChanged \<and> \<not> isPlayingStory v
                then v\<lparr>viewingSegment := cur\<rparr> else v)
      in if (playingChanged \<or> indexChanged) \<and> isPlayingStory v \<and> storyIndex v < length segs
         then v1\<lparr>viewingSegment := segs ! storyIndex v\<rparr> else v1)"

definition resultStep ::
  "StorySegment list \<Rightarrow> StorySegment \<Rightarrow> result_event \<Rightarrow> VideoResult \<Rightarrow> VideoResult" where
  "resultStep segs cur e v = viewEffects segs cur v (resultHandler segs cur e v)"

text \<open>\<open>ended segs cur n v\<close>: the video element signals \<^verbatim>\<open>ended\<close> \<open>n\<close> times in a row.\<close>

fun ended :: "StorySegment list \<Rightarrow> StorySegment \<Rightarrow> nat \<Rightarrow> VideoResult \<Rightarrow> VideoResult" where
  "ended segs cur 0 v = v"
| "ended segs cur (Suc n) v = resultStep segs cur VideoEnded (ended segs cur n v)"

section \<open>The specification's vocabulary\<close>

text \<open>
  The specification names three categories of failure and describes the patterns as
  occurrences in the raw error text. These definitions follow its words: an
  occurrence is a contiguous part of the text, and a case-insensitive occurrence is a
  contiguous part that equals the pattern once both are in lower case.
\<close>

datatype category = ModelNotFound | CredentialInvalid | Generic

definition occursIn :: "string \<Rightarrow> string \<Rightarrow> bool" where
  "occursIn p s = (\<exists>a b. s = a @ p @ b)"

definition occursIgnoringCase :: "string \<Rightarrow> string \<Rightarrow> bool" where
  "occursIgnoringCase p s = (\<exists>a u b. s = a @ u @ b \<and> toLowerCase u = toLowerCase p)"

definition specCategory :: "string \<Rightarrow> category" where
  "specCategory raw =
     (if occursIn ''Requested entity was not found.'' raw then ModelNotFound
      else if occursIn ''API_KEY_INVALID'' raw \<or> occursIn ''API key not valid'' raw
              \<or> occursIgnoringCase ''permission denied'' raw \<or> occursIn ''403'' raw
      then CredentialInvalid
      else Generic)"

definition specUserMessage :: "category \<Rightarrow> string \<Rightarrow> string" where
  "specUserMessage c raw =
     (case c of
        ModelNotFound \<Rightarrow> modelNotFoundMessage
      | CredentialInvalid \<Rightarrow> keyInvalidMessage
      | Generic \<Rightarrow> ''Generation failed: '' @ raw)"

definition specReselect :: "category \<Rightarrow> bool" where
  "specReselect c = (c \<noteq> Generic)"

text \<open>
  The specification's submit rule: the fields a mode requires are present.
\<close>

definition requiredFieldsPresent :: "PromptForm \<Rightarrow> bool" where
  "requiredFieldsPresent f =
     (case generationMode f of
        TEXT_TO_VIDEO \<Rightarrow> trim (f_prompt f) \<noteq> []
      | FRAMES_TO_VIDEO \<Rightarrow> f_startFrame f \<noteq> None
      | REFERENCES_TO_VIDEO \<Rightarrow> trim (f_prompt f) \<noteq> [] \<and> f_referenceImages f \<noteq> []
      | EXTEND_VIDEO \<Rightarrow> f_inputVideoObject f \<noteq> None)"

text \<open>
  The two invariants used below: the forced fields of the form, and the current
  segment being the one appended last.
\<close>

definition formInv :: "PromptForm \<Rightarrow> bool" where
  "formInv f =
     ((generationMode f = REFERENCES_TO_VIDEO \<longrightarrow>
         f_model f = VEO \<and> f_aspectRatio f = LANDSCAPE \<and> f_resolution f = P720)
      \<and> (generationMode f = EXTEND_VIDEO \<longrightarrow> f_resolution f = P720))"

definition currentIsLast :: "App \<Rightarrow> bool" where
  "currentIsLast s =
     (timeline s = [] \<or> currentSegmentId s = Some (seg_id (last (timeline s))))"

section \<open>Sample inputs\<close>

text \<open>Concrete worlds, requests and forms at which the theorems below are evaluated.\<close>

definition sampleParams :: GenerateVideoParams where
  "sampleParams =
     \<lparr>prompt = ''A lab at night'', model = VEO_FAST, aspectRatio = LANDSCAPE,
      resolution = P720, mode = TEXT_TO_VIDEO, startFrame = None, endFrame = None,
      referenceImages = [], styleImage = None, inputVideo = None,
      inputVideoObject = None, isLooping = False, dialogue = Some ''Hello'',
      speaker = ELENA\<rparr>"

definition sampleVideo :: VideoGen where
  "sampleVideo = \<lparr>objectUrl = ''blob:1'', blob = ''bytes'', video = ''files/1''\<rparr>"

definition sampleWorld :: world where
  "sampleWorld =
     \<lparr>aistudio = Some (Returns True), videoOutcome = Inr sampleVideo,
      speechOutcome = Inr (Some \<lparr>speechAudioUrl = Some ''blob:a''\<rparr>),
      speechRejectsFirst = False, now = 1, openSelectKeyThrows = False,
      fileCtorThrows = None\<rparr>"

definition speechDownWorld :: world where
  "speechDownWorld = sampleWorld\<lparr>speechOutcome := Inl (ErrorObj ''tts unavailable'')\<rparr>"

definition hiddenDialogueForm :: PromptForm where
  "hiddenDialogueForm =
     formStep ToggleDialogue
       (formStep (ChangeDialogue ''Hello'')
          (formStep (ChangeSpeaker ELENA)
             (formStep ToggleDialogue
                (formStep (ChangePrompt ''A lab at night'') (mountForm None)))))"

definition blankTextForm :: PromptForm where
  "blankTextForm = formStep (ChangePrompt ''  '') (mountForm None)"

definition referencesForm :: PromptForm where
  "referencesForm =
     formStep (SelectMode REFERENCES_TO_VIDEO)
       (formStep ToggleModeSelector
          (formStep (ChangeResolution P4K)
             (formStep (ChangeAspectRatio PORTRAIT)
                (formStep ToggleSettings (mountForm None)))))"

definition sampleImage :: ImageFile where
  "sampleImage = \<lparr>rawFile = ''hero.png'', base64 = ''aGVybw==''\<rparr>"

definition nbspForm :: PromptForm where
  "nbspForm = formStep (ChangePrompt [CHR 0xA0, CHR 0x20]) (mountForm None)"

definition extendDraftForm :: PromptForm where
  "extendDraftForm = mountForm (Some (sampleParams\<lparr>mode := EXTEND_VIDEO, resolution := P4K\<rparr>))"

text \<open>
  A start frame is picked in Frames mode; the mode is switched to Text before the file
  has been read; the read then finishes and calls \<^verbatim>\<open>onSelect\<close>; a prompt is typed.
\<close>

definition framesForm :: PromptForm where
  "framesForm = formStep (SelectMode FRAMES_TO_VIDEO) (formStep ToggleModeSelector (mountForm None))"

definition switchedForm :: PromptForm where
  "switchedForm = formStep (SelectMode TEXT_TO_VIDEO) (formStep ToggleModeSelector framesForm)"

definition lateUploadForm :: PromptForm where
  "lateUploadForm =
     formStep (ChangePrompt ''A lab at night'')
       (formStep (SelectStartFrame sampleImage) switchedForm)"

definition threeScenes :: App where
  "threeScenes =
     fst (handleGenerate (sampleWorld\<lparr>now := 3\<rparr>) sampleParams
       (fst (handleGenerate (sampleWorld\<lparr>now := 2\<rparr>) sampleParams
          (fst (handleGenerate (sampleWorld\<lparr>now := 1\<rparr>) sampleParams
             (fst (checkApiKey sampleWorld initialApp)))))))"

text \<open>Two attempts that succeed while the clock reads the same millisecond.\<close>

definition secondVideo :: VideoGen where
  "secondVideo = \<lparr>objectUrl = ''blob:2'', blob = ''bytes2'', video = ''files/2''\<rparr>"

definition twoSameScenes :: App where
  "twoSameScenes =
     fst (handleGenerate (sampleWorld\<lparr>now := 5, videoOutcome := Inr secondVideo\<rparr>) sampleParams
       (fst (handleGenerate (sampleWorld\<lparr>now := 5\<rparr>) sampleParams
          (fst (checkApiKey sampleWorld initialApp)))))"

section \<open>Properties of the application component\<close>

text \<open>The calls of an attempt, and the sample state with three scenes.\<close>

lemma handleGenerate_calls:
  "snd (handleGenerate w params s) =
     (case aistudio w of
        None \<Rightarrow> launched params
      | Some (Returns b) \<Rightarrow> (if b then HasSelectedApiKey # launched params else [HasSelectedApiKey])
      | Some Throws \<Rightarrow> [HasSelectedApiKey])"
  by (simp add: handleGenerate_def Let_def split: option.split check.split)

lemma threeScenes_ids:
  "map seg_id (timeline threeScenes) = [1, 2, 3] \<and> currentSegmentId threeScenes = Some 3"
  by (simp add: threeScenes_def handleGenerate_def promiseAll_def onSuccess_def
      newSegment_def checkApiKey_def sampleWorld_def speechRequested_def
      sampleParams_def truthy_def initialApp_def Let_def)

subsection \<open>Extend eligibility\<close>

text \<open>
  C8. The derived extend-eligibility flag is true exactly when there is a last used
  config and its resolution is 720p; with a last config of resolution 1080p or 4K the
  flag is false.
\<close>

theorem canExtend_iff_720p:
  "canExtend s = (\<exists>c. lastConfig s = Some c \<and> resolution c = P720)
   \<and> canExtend (s\<lparr>lastConfig := Some (c\<lparr>resolution := P720\<rparr>)\<rparr>)
   \<and> \<not> canExtend (s\<lparr>lastConfig := Some (c\<lparr>resolution := P1080\<rparr>)\<rparr>)
   \<and> \<not> canExtend (s\<lparr>lastConfig := Some (c\<lparr>resolution := P4K\<rparr>)\<rparr>)"
  by (simp add: canExtend_def split: option.split)

subsection \<open>Failure of a generation attempt\<close>

lemma handleGenerate_failure:
  assumes "aistudio w = None \<or> aistudio w = Some (Returns True)"
    and "promiseAll w params = Inl e"
  shows "fst (handleGenerate w params s) =
           onFailure e (s\<lparr>appState := LOADING, errorMessage := None,
                          lastConfig := Some params, initialFormValues := None\<rparr>)"
  using assms by (auto simp: handleGenerate_def)

lemma onFailure_frame:
  "timeline (onFailure e s) = timeline s"
  "currentSegmentId (onFailure e s) = currentSegmentId s"
  "lastVideoBlob (onFailure e s) = lastVideoBlob s"
  "lastVideoObject (onFailure e s) = lastVideoObject s"
  "appState (onFailure e s) = ERROR"
  "errorMessage (onFailure e s) = Some (fst (classifyError (caughtMessage e)))"
  by (simp_all add: onFailure_def Let_def split: prod.split)

lemma promiseAll_fails:
  assumes "speechRequested params" "isl (videoOutcome w) \<or> isl (speechOutcome w)"
  shows "\<exists>e. promiseAll w params = Inl e"
  using assms by (cases "videoOutcome w"; cases "speechOutcome w") (auto simp: promiseAll_def)

lemma promiseAll_speech_failed:
  assumes "speechRequested params" "speechOutcome w = Inl e"
  shows "promiseAll (w\<lparr>videoOutcome := Inr v\<rparr>) params = Inl e"
  using assms by (simp add: promiseAll_def)

lemma promiseAll_video_failed:
  assumes "videoOutcome w = Inl e"
  shows "promiseAll (w\<lparr>speechOutcome := Inr r\<rparr>) params = Inl e"
  using assms by (simp add: promiseAll_def)

text \<open>
  C1. In an attempt that passes the credential guard and launches both the video and
  the speech call, if either call fails then the timeline, the current-segment
  pointer and the retained video artifact are what they were before the attempt, the
  application state is ERROR with a message, and the state reached does not depend
  on the result of the call that succeeded.
\<close>

theorem all_or_nothing:
  assumes "aistudio w = None \<or> aistudio w = Some (Returns True)"
    and "speechRequested params"
    and "isl (videoOutcome w) \<or> isl (speechOutcome w)"
  shows "GenerateVideo params \<in> set (snd (handleGenerate w params s))
       \<and> GenerateSpeech (dialogueText params) (speaker params)
             \<in> set (snd (handleGenerate w params s))
       \<and> timeline (fst (handleGenerate w params s)) = timeline s
       \<and> currentSegmentId (fst (handleGenerate w params s)) = currentSegmentId s
       \<and> appState (fst (handleGenerate w params s)) = ERROR
       \<and> errorMessage (fst (handleGenerate w params s)) \<noteq> None
       \<and> lastVideoBlob (fst (handleGenerate w params s)) = lastVideoBlob s
       \<and> lastVideoObject (fst (handleGenerate w params s)) = lastVideoObject s
       \<and> (\<forall>v v'. isl (speechOutcome w) \<longrightarrow>
             fst (handleGenerate (w\<lparr>videoOutcome := Inr v\<rparr>) params s) =
             fst (handleGenerate (w\<lparr>videoOutcome := Inr v'\<rparr>) params s))
       \<and> (\<forall>r r'. isl (videoOutcome w) \<longrightarrow>
             fst (handleGenerate (w\<lparr>speechOutcome := Inr r\<rparr>) params s) =
             fst (handleGenerate (w\<lparr>speechOutcome := Inr r'\<rparr>) params s))"
proof -
  obtain e where e: "promiseAll w params = Inl e"
    using promiseAll_fails [OF assms(2,3)] by blast
  note run = handleGenerate_failure [OF assms(1) e, of s]
  have frame: "timeline (fst (handleGenerate w params s)) = timeline s"
    "currentSegmentId (fst (handleGenerate w params s)) = currentSegmentId s"
    "appState (fst (handleGenerate w params s)) = ERROR"
    "errorMessage (fst (handleGenerate w params s)) \<noteq> None"
    "lastVideoBlob (fst (handleGenerate w params s)) = lastVideoBlob s"
    "lastVideoObject (fst (handleGenerate w params s)) = lastVideoObject s"
    by (simp_all add: run onFailure_frame)
  have video_dropped:
    "fst (handleGenerate (w\<lparr>videoOutcome := Inr v\<rparr>) params s) =
     fst (handleGenerate (w\<lparr>videoOutcome := Inr v'\<rparr>) params s)"
    if "isl (speechOutcome w)" for v v'
  proof -
    from that obtain y where y: "speechOutcome w = Inl y" by (cases "speechOutcome w") auto
    have g: "aistudio (w\<lparr>videoOutcome := Inr u\<rparr>) = None
             \<or> aistudio (w\<lparr>videoOutcome := Inr u\<rparr>) = Some (Returns True)" for u
      using assms(1) by simp
    show ?thesis
      by (simp add: handleGenerate_failure [OF g promiseAll_speech_failed [OF assms(2) y]])
  qed
  have speech_dropped:
    "fst (handleGenerate (w\<lparr>speechOutcome := Inr r\<rparr>) params s) =
     fst (handleGenerate (w\<lparr>speechOutcome := Inr r'\<rparr>) params s)"
    if "isl (videoOutcome w)" for r r'
  proof -
    from that obtain x where x: "videoOutcome w = Inl x" by (cases "videoOutcome w") auto
    have g: "aistudio (w\<lparr>speechOutcome := Inr u\<rparr>) = None
             \<or> aistudio (w\<lparr>speechOutcome := Inr u\<rparr>) = Some (Returns True)" for u
      using assms(1) by simp
    show ?thesis
      by (simp add: handleGenerate_failure [OF g promiseAll_video_failed [OF x]])
  qed
  have calls: "GenerateVideo params \<in> set (snd (handleGenerate w params s))"
    "GenerateSpeech (dialogueText params) (speaker params)
       \<in> set (snd (handleGenerate w params s))"
    using assms(1,2) by (auto simp: handleGenerate_calls launched_def)
  from calls frame video_dropped speech_dropped show ?thesis by blast
qed

theorem all_or_nothing_witness:
  "(aistudio speechDownWorld = None \<or> aistudio speechDownWorld = Some (Returns True))
   \<and> speechRequested sampleParams
   \<and> (isl (videoOutcome speechDownWorld) \<or> isl (speechOutcome speechDownWorld))
   \<and> map seg_id (timeline (fst (handleGenerate speechDownWorld sampleParams threeScenes)))
       = [1, 2, 3]
   \<and> currentSegmentId (fst (handleGenerate speechDownWorld sampleParams threeScenes)) = Some 3
   \<and> appState (fst (handleGenerate speechDownWorld sampleParams threeScenes)) = ERROR
   \<and> lastVideoBlob (fst (handleGenerate speechDownWorld sampleParams threeScenes))
       = lastVideoBlob threeScenes"
proof -
  have h1: "aistudio speechDownWorld = None \<or> aistudio speechDownWorld = Some (Returns True)"
    by (simp add: speechDownWorld_def sampleWorld_def)
  have h2: "speechRequested sampleParams"
    by (simp add: speechRequested_def sampleParams_def truthy_def)
  have h3: "isl (videoOutcome speechDownWorld) \<or> isl (speechOutcome speechDownWorld)"
    by (simp add: speechDownWorld_def sampleWorld_def)
  show ?thesis
    using h1 h2 h3 all_or_nothing [OF h1 h2 h3, of threeScenes]
    by (simp add: threeScenes_ids)
qed

subsection \<open>Error classification\<close>

lemma startsWith_iff: "startsWith s p = (\<exists>b. s = p @ b)"
  by (induction s p rule: startsWith.induct) auto

lemma includesStr_iff: "includesStr s p = (\<exists>a b. s = a @ p @ b)"
proof (induction s)
  case Nil
  then show ?case by (simp add: startsWith_iff)
next
  case (Cons d s)
  show ?case
  proof
    assume "includesStr (d # s) p"
    then consider "startsWith (d # s) p" | "includesStr s p" by auto
    then show "\<exists>a b. d # s = a @ p @ b"
    proof cases
      case 1
      then obtain b where "d # s = p @ b" by (auto simp: startsWith_iff)
      then have "d # s = [] @ p @ b" by simp
      then show ?thesis by blast
    next
      case 2
      then obtain a b where "s = a @ p @ b" using Cons.IH by auto
      then have "d # s = (d # a) @ p @ b" by simp
      then show ?thesis by blast
    qed
  next
    assume "\<exists>a b. d # s = a @ p @ b"
    then obtain a b where ab: "d # s = a @ p @ b" by blast
    show "includesStr (d # s) p"
    proof (cases a)
      case Nil
      with ab have "startsWith (d # s) p" by (auto simp: startsWith_iff)
      then show ?thesis by simp
    next
      case (Cons x a')
      with ab have "s = a' @ p @ b" by simp
      then have "includesStr s p" using Cons.IH by blast
      then show ?thesis by simp
    qed
  qed
qed

lemma occurs_map:
  "(\<exists>a b. map f s = a @ p @ b) = (\<exists>a u b. s = a @ u @ b \<and> map f u = p)"
proof
  assume "\<exists>a b. map f s = a @ p @ b"
  then obtain a b where ab: "map f s = a @ p @ b" by blast
  define u where "u = take (length p) (drop (length a) s)"
  have "map f u = take (length p) (drop (length a) (map f s))"
    by (simp add: u_def take_map drop_map)
  then have "map f u = p" by (simp add: ab)
  moreover have "drop (length a) s = u @ drop (length p) (drop (length a) s)"
    unfolding u_def by (rule append_take_drop_id [symmetric])
  then have "s = take (length a) s @ u @ drop (length p) (drop (length a) s)"
    by (metis append_take_drop_id)
  ultimately show "\<exists>a u b. s = a @ u @ b \<and> map f u = p" by blast
next
  assume "\<exists>a u b. s = a @ u @ b \<and> map f u = p"
  then obtain a u b where "s = a @ u @ b" "map f u = p" by blast
  then have "map f s = map f a @ p @ map f b" by simp
  then show "\<exists>a b. map f s = a @ p @ b" by blast
qed

lemma includesStr_occursIn: "includesStr s p = occursIn p s"
  by (simp add: includesStr_iff occursIn_def)

lemma lower_pattern: "toLowerCase ''permission denied'' = ''permission denied''"
  by (simp add: toLowerCase_def lowerChar_def)

lemma includesStr_lower:
  "includesStr (toLowerCase s) ''permission denied'' = occursIgnoringCase ''permission denied'' s"
  unfolding includesStr_iff occursIgnoringCase_def lower_pattern
  unfolding toLowerCase_def by (rule occurs_map)

lemma classifyError_spec:
  "classifyError raw = (specUserMessage (specCategory raw) raw, specReselect (specCategory raw))"
  unfolding classifyError_def includesStr_lower
  unfolding includesStr_occursIn
  by (simp add: specCategory_def specUserMessage_def specReselect_def)

text \<open>
  C2. The failure branch classifies the raw error text by occurrences of patterns, the
  first match winning: the model-not-found pattern gives ModelNotFound, otherwise one
  of the four credential patterns (the third without regard to case) gives
  CredentialInvalid, both with the re-selection dialog opened; anything else gives
  Generic, with the message "Generation failed: " followed by the raw text, and the
  dialog flag left as it was.
\<close>

theorem error_classification:
  "onFailure e s =
     s\<lparr>errorMessage := Some (specUserMessage (specCategory (caughtMessage e)) (caughtMessage e)),
       appState := ERROR,
       showApiKeyDialog := (specReselect (specCategory (caughtMessage e)) \<or> showApiKeyDialog s)\<rparr>
   \<and> classifyError raw = (specUserMessage (specCategory raw) raw, specReselect (specCategory raw))
   \<and> classifyError ''Requested entity was not found.'' = (modelNotFoundMessage, True)
   \<and> classifyError ''403: Requested entity was not found.'' = (modelNotFoundMessage, True)
   \<and> classifyError ''got status: 403 Forbidden'' = (keyInvalidMessage, True)
   \<and> classifyError ''boom'' = (''Generation failed: boom'', False)"
proof -
  have "onFailure e s =
     s\<lparr>errorMessage := Some (specUserMessage (specCategory (caughtMessage e)) (caughtMessage e)),
       appState := ERROR,
       showApiKeyDialog := (specReselect (specCategory (caughtMessage e)) \<or> showApiKeyDialog s)\<rparr>"
    by (cases "specReselect (specCategory (caughtMessage e))")
       (simp_all add: onFailure_def classifyError_spec)
  moreover have "classifyError ''Requested entity was not found.'' = (modelNotFoundMessage, True)"
    by (simp add: classifyError_def)
  moreover have "classifyError ''403: Requested entity was not found.'' = (modelNotFoundMessage, True)"
    by (simp add: classifyError_def)
  moreover have "classifyError ''got status: 403 Forbidden'' = (keyInvalidMessage, True)"
    by (simp add: classifyError_def toLowerCase_def lowerChar_def)
  moreover have "classifyError ''boom'' = (''Generation failed: boom'', False)"
    by (simp add: classifyError_def toLowerCase_def lowerChar_def)
  ultimately show ?thesis using classifyError_spec by blast
qed

theorem error_classification_witness:
  "specCategory ''Permission Denied on resource'' = CredentialInvalid
   \<and> onFailure (ErrorObj ''Permission Denied on resource'') initialApp =
       initialApp\<lparr>errorMessage := Some keyInvalidMessage, appState := ERROR,
                  showApiKeyDialog := True\<rparr>
   \<and> specCategory ''boom'' = Generic
   \<and> onFailure (ErrorObj ''boom'') initialApp =
       initialApp\<lparr>errorMessage := Some ''Generation failed: boom'', appState := ERROR,
                  showApiKeyDialog := False\<rparr>"
proof -
  have c1: "specCategory ''Permission Denied on resource'' = CredentialInvalid"
    by (simp add: specCategory_def includesStr_occursIn [symmetric]
        includesStr_lower [symmetric] toLowerCase_def lowerChar_def)
  have c2: "specCategory ''boom'' = Generic"
    by (simp add: specCategory_def includesStr_occursIn [symmetric]
        includesStr_lower [symmetric] toLowerCase_def lowerChar_def)
  from error_classification [of "ErrorObj ''Permission Denied on resource''" initialApp]
    error_classification [of "ErrorObj ''boom''" initialApp]
  show ?thesis
    by (simp add: c1 c2 caughtMessage_def specUserMessage_def specReselect_def initialApp_def)
qed

subsection \<open>The credential guard\<close>

text \<open>
  C6, as stated, fails where the host page has no \<^verbatim>\<open>window.aistudio\<close>: the attempt
  calls the generation service and the check is never called, neither at start nor
  before the attempt.
\<close>

theorem credential_check_counterexample:
  "HasSelectedApiKey \<notin> set (snd (handleGenerate (sampleWorld\<lparr>aistudio := None\<rparr>) sampleParams initialApp))
   \<and> GenerateVideo sampleParams \<in> set (snd (handleGenerate (sampleWorld\<lparr>aistudio := None\<rparr>) sampleParams initialApp))
   \<and> snd (checkApiKey (sampleWorld\<lparr>aistudio := None\<rparr>) initialApp) = []"
  by (simp add: handleGenerate_calls checkApiKey_def launched_def)

text \<open>
  C6, amended. When the host page provides \<^verbatim>\<open>window.aistudio\<close>, the credential check
  is called at start and is the first call of every generation attempt; if it returns
  false or throws, the attempt makes no other call, opens the selection dialog and
  leaves the application state, the last config, the error message and the timeline
  as they were.
\<close>

theorem credential_guard:
  assumes "aistudio w = Some c"
  shows "snd (checkApiKey w s0) = [HasSelectedApiKey]
       \<and> (\<exists>rest. snd (handleGenerate w params s) = HasSelectedApiKey # rest)
       \<and> (c = Returns False \<or> c = Throws \<longrightarrow>
            fst (checkApiKey w s0) = s0\<lparr>showApiKeyDialog := True\<rparr>
            \<and> handleGenerate w params s = (s\<lparr>showApiKeyDialog := True\<rparr>, [HasSelectedApiKey])
            \<and> showApiKeyDialog (fst (handleGenerate w params s))
            \<and> appState (fst (handleGenerate w params s)) = appState s
            \<and> lastConfig (fst (handleGenerate w params s)) = lastConfig s
            \<and> errorMessage (fst (handleGenerate w params s)) = errorMessage s
            \<and> timeline (fst (handleGenerate w params s)) = timeline s)"
proof -
  have "snd (checkApiKey w s0) = [HasSelectedApiKey]"
    using assms by (cases c) (simp_all add: checkApiKey_def)
  moreover have "\<exists>rest. snd (handleGenerate w params s) = HasSelectedApiKey # rest"
    using assms by (cases c) (simp_all add: handleGenerate_calls)
  moreover have "handleGenerate w params s = (s\<lparr>showApiKeyDialog := True\<rparr>, [HasSelectedApiKey])"
    if "c = Returns False \<or> c = Throws"
    using assms that by (auto simp: handleGenerate_def)
  moreover have "fst (checkApiKey w s0) = s0\<lparr>showApiKeyDialog := True\<rparr>"
    if "c = Returns False \<or> c = Throws"
    using assms that by (auto simp: checkApiKey_def)
  ultimately show ?thesis by simp
qed

theorem credential_guard_witness:
  "aistudio (sampleWorld\<lparr>aistudio := Some Throws\<rparr>) = Some Throws
   \<and> handleGenerate (sampleWorld\<lparr>aistudio := Some Throws\<rparr>) sampleParams initialApp =
       (initialApp\<lparr>showApiKeyDialog := True\<rparr>, [HasSelectedApiKey])
   \<and> handleGenerate (sampleWorld\<lparr>aistudio := Some (Returns False)\<rparr>) sampleParams initialApp =
       (initialApp\<lparr>showApiKeyDialog := True\<rparr>, [HasSelectedApiKey])"
  using credential_guard [of "sampleWorld\<lparr>aistudio := Some Throws\<rparr>" Throws initialApp sampleParams initialApp]
    credential_guard [of "sampleWorld\<lparr>aistudio := Some (Returns False)\<rparr>" "Returns False" initialApp sampleParams initialApp]
  by simp

section \<open>Properties of the prompt form\<close>

subsection \<open>Submit gating\<close>

lemma dropWhile_all_iff:
  "(\<forall>x\<in>set (dropWhile P xs). P x) = (\<forall>x\<in>set xs. P x)"
proof
  assume all: "\<forall>x\<in>set (dropWhile P xs). P x"
  have "dropWhile P xs = []"
  proof (cases "dropWhile P xs")
    case Nil
    then show ?thesis .
  next
    case (Cons y ys)
    then have "\<not> P y" using hd_dropWhile [of P xs] by simp
    moreover from Cons all have "P y" by simp
    ultimately show ?thesis by simp
  qed
  then show "\<forall>x\<in>set xs. P x" by simp
next
  assume "\<forall>x\<in>set xs. P x"
  then show "\<forall>x\<in>set (dropWhile P xs). P x" by (auto dest: set_dropWhileD)
qed

lemma trim_empty_iff: "(trim s = []) = (\<forall>c. c \<in> set s \<longrightarrow> isWhiteSpace c)"
proof -
  have "(trim s = []) = (\<forall>x\<in>set (dropWhile isWhiteSpace s). isWhiteSpace x)"
    by (simp add: trim_def)
  then show ?thesis by (auto simp: dropWhile_all_iff)
qed

lemma gate_iff: "isSubmitDisabled f = (\<not> requiredFieldsPresent f)"
  by (cases "generationMode f")
     (simp_all add: isSubmitDisabled_def submitGate_def requiredFieldsPresent_def Let_def)

lemma gate_reason: "isSubmitDisabled f \<Longrightarrow> tooltipText f \<noteq> []"
  by (cases "generationMode f")
     (auto simp: isSubmitDisabled_def tooltipText_def submitGate_def Let_def)

lemmas form_eval =
  formStep_def afterRender_def mountForm_def initialForm_def initialValuesEffect_def
  modeEffect_def handleSelectMode_def selectableModes_def isReferenceMode_def
  isExtendMode_def

text \<open>
  C3. The submit button is enabled exactly when the fields required by the mode are
  present: a prompt with a character that is not white space for TEXT_TO_VIDEO; a
  start frame for FRAMES_TO_VIDEO, with or without an end frame; such a prompt and at
  least one reference image for REFERENCES_TO_VIDEO; the remote video handle for
  EXTEND_VIDEO, with or without a prompt. Whenever the button is disabled there is a
  reason, the one for the unmet condition, and in REFERENCES_TO_VIDEO with both
  conditions unmet the reason names both.
\<close>

theorem submit_gating:
  "(\<not> isSubmitDisabled f) = requiredFieldsPresent f
   \<and> (trim (f_prompt f) \<noteq> []) = (\<exists>c. c \<in> set (f_prompt f) \<and> \<not> isWhiteSpace c)
   \<and> (isSubmitDisabled f \<longrightarrow> tooltipText f \<noteq> [])
   \<and> (generationMode f = TEXT_TO_VIDEO \<and> trim (f_prompt f) = [] \<longrightarrow>
        tooltipText f = ''Please enter a visual description.'')
   \<and> (generationMode f = FRAMES_TO_VIDEO \<and> f_startFrame f = None \<longrightarrow>
        tooltipText f = ''A start frame is required.'')
   \<and> (generationMode f = FRAMES_TO_VIDEO \<and> f_startFrame f \<noteq> None \<longrightarrow>
        \<not> isSubmitDisabled (f\<lparr>f_endFrame := None\<rparr>))
   \<and> (generationMode f = REFERENCES_TO_VIDEO \<and> trim (f_prompt f) = []
        \<and> f_referenceImages f = [] \<longrightarrow>
        tooltipText f = ''Please enter a prompt and add at least one asset.'')
   \<and> (generationMode f = REFERENCES_TO_VIDEO \<and> trim (f_prompt f) = []
        \<and> f_referenceImages f \<noteq> [] \<longrightarrow>
        tooltipText f = ''Please enter a prompt.'')
   \<and> (generationMode f = REFERENCES_TO_VIDEO \<and> trim (f_prompt f) \<noteq> []
        \<and> f_referenceImages f = [] \<longrightarrow>
        tooltipText f = ''At least one reference asset is required.'')
   \<and> (generationMode f = EXTEND_VIDEO \<and> f_inputVideoObject f = None \<longrightarrow>
        tooltipText f = ''An input video from a previous generation is required to extend.'')
   \<and> (generationMode f = EXTEND_VIDEO \<and> f_inputVideoObject f \<noteq> None \<longrightarrow>
        \<not> isSubmitDisabled (f\<lparr>f_prompt := []\<rparr>))"
proof -
  have a: "(\<not> isSubmitDisabled f) = requiredFieldsPresent f" by (simp add: gate_iff)
  have b: "(trim (f_prompt f) \<noteq> []) = (\<exists>c. c \<in> set (f_prompt f) \<and> \<not> isWhiteSpace c)"
    by (simp add: trim_empty_iff)
  have c: "isSubmitDisabled f \<longrightarrow> tooltipText f \<noteq> []" using gate_reason by blast
  have d: "generationMode f = TEXT_TO_VIDEO \<and> trim (f_prompt f) = [] \<longrightarrow>
        tooltipText f = ''Please enter a visual description.''"
    by (simp add: tooltipText_def submitGate_def Let_def)
  have e: "generationMode f = FRAMES_TO_VIDEO \<and> f_startFrame f = None \<longrightarrow>
        tooltipText f = ''A start frame is required.''"
    by (simp add: tooltipText_def submitGate_def Let_def)
  have e': "generationMode f = FRAMES_TO_VIDEO \<and> f_startFrame f \<noteq> None \<longrightarrow>
        \<not> isSubmitDisabled (f\<lparr>f_endFrame := None\<rparr>)"
    by (auto simp: isSubmitDisabled_def submitGate_def Let_def)
  have g: "generationMode f = REFERENCES_TO_VIDEO \<and> trim (f_prompt f) = []
        \<and> f_referenceImages f = [] \<longrightarrow>
        tooltipText f = ''Please enter a prompt and add at least one asset.''"
    by (simp add: tooltipText_def submitGate_def Let_def)
  have h: "generationMode f = REFERENCES_TO_VIDEO \<and> trim (f_prompt f) = []
        \<and> f_referenceImages f \<noteq> [] \<longrightarrow>
        tooltipText f = ''Please enter a prompt.''"
    by (simp add: tooltipText_def submitGate_def Let_def)
  have i: "generationMode f = REFERENCES_TO_VIDEO \<and> trim (f_prompt f) \<noteq> []
        \<and> f_referenceImages f = [] \<longrightarrow>
        tooltipText f = ''At least one reference asset is required.''"
    by (simp add: tooltipText_def submitGate_def Let_def)
  have j: "generationMode f = EXTEND_VIDEO \<and> f_inputVideoObject f = None \<longrightarrow>
        tooltipText f = ''An input video from a previous generation is required to extend.''"
    by (simp add: tooltipText_def submitGate_def Let_def)
  have k: "generationMode f = EXTEND_VIDEO \<and> f_inputVideoObject f \<noteq> None \<longrightarrow>
        \<not> isSubmitDisabled (f\<lparr>f_prompt := []\<rparr>)"
    by (auto simp: isSubmitDisabled_def submitGate_def Let_def)
  from a b c d e e' g h i j k show ?thesis by blast
qed

theorem submit_gating_witness:
  "isSubmitDisabled blankTextForm
   \<and> tooltipText blankTextForm = ''Please enter a visual description.''
   \<and> f_prompt nbspForm = [CHR 0xA0, CHR 0x20]
   \<and> isSubmitDisabled nbspForm
   \<and> tooltipText nbspForm = ''Please enter a visual description.''
   \<and> generationMode referencesForm = REFERENCES_TO_VIDEO
   \<and> trim (f_prompt referencesForm) = [] \<and> f_referenceImages referencesForm = []
   \<and> isSubmitDisabled referencesForm
   \<and> tooltipText referencesForm = ''Please enter a prompt and add at least one asset.''"
proof -
  have m: "generationMode blankTextForm = TEXT_TO_VIDEO"
    by (simp add: blankTextForm_def form_eval)
  have p: "trim (f_prompt blankTextForm) = []"
    by (simp add: blankTextForm_def form_eval trim_def isWhiteSpace_def)
  have r: "generationMode referencesForm = REFERENCES_TO_VIDEO"
    "trim (f_prompt referencesForm) = []" "f_referenceImages referencesForm = []"
    by (simp_all add: referencesForm_def form_eval trim_def)
  have n: "generationMode nbspForm = TEXT_TO_VIDEO" "trim (f_prompt nbspForm) = []"
    by (simp_all add: nbspForm_def form_eval trim_def isWhiteSpace_def)
  have n': "f_prompt nbspForm = [CHR 0xA0, CHR 0x20]"
    by (simp add: nbspForm_def form_eval)
  have q: "\<not> requiredFieldsPresent blankTextForm" "\<not> requiredFieldsPresent referencesForm"
    "\<not> requiredFieldsPresent nbspForm"
    by (simp_all add: requiredFieldsPresent_def m p r n)
  from m p r n q submit_gating [of blankTextForm] submit_gating [of referencesForm]
    submit_gating [of nbspForm]
  have "isSubmitDisabled blankTextForm
     \<and> tooltipText blankTextForm = ''Please enter a visual description.''
     \<and> isSubmitDisabled nbspForm
     \<and> tooltipText nbspForm = ''Please enter a visual description.''
     \<and> isSubmitDisabled referencesForm
     \<and> tooltipText referencesForm = ''Please enter a prompt and add at least one asset.''"
    by simp
  with r n' show ?thesis by blast
qed

subsection \<open>Mode switch\<close>

lemma modeEffect_frame:
  "generationMode (modeEffect m f) = generationMode f"
  "f_startFrame (modeEffect m f) = f_startFrame f"
  "f_endFrame (modeEffect m f) = f_endFrame f"
  "f_referenceImages (modeEffect m f) = f_referenceImages f"
  "f_styleImage (modeEffect m f) = f_styleImage f"
  "f_inputVideo (modeEffect m f) = f_inputVideo f"
  "f_inputVideoObject (modeEffect m f) = f_inputVideoObject f"
  "f_isLooping (modeEffect m f) = f_isLooping f"
  by (simp_all add: modeEffect_def Let_def)

lemma afterRender_frame:
  "generationMode (afterRender b f) = generationMode f"
  "f_startFrame (afterRender b f) = f_startFrame f"
  "f_endFrame (afterRender b f) = f_endFrame f"
  "f_referenceImages (afterRender b f) = f_referenceImages f"
  "f_styleImage (afterRender b f) = f_styleImage f"
  "f_inputVideo (afterRender b f) = f_inputVideo f"
  "f_inputVideoObject (afterRender b f) = f_inputVideoObject f"
  "f_isLooping (afterRender b f) = f_isLooping f"
  by (simp_all add: afterRender_def modeEffect_frame)

text \<open>
  The step of \<^verbatim>\<open>handleSelectMode\<close> on its own: right after it, and the effect that
  follows it, every asset cell is empty and the looping flag is false.
\<close>

lemma handleSelectMode_clears:
  "generationMode (afterRender f (handleSelectMode m f)) = m
   \<and> startFrame (handleSubmit (afterRender f (handleSelectMode m f))) = None
   \<and> endFrame (handleSubmit (afterRender f (handleSelectMode m f))) = None
   \<and> referenceImages (handleSubmit (afterRender f (handleSelectMode m f))) = []
   \<and> styleImage (handleSubmit (afterRender f (handleSelectMode m f))) = None
   \<and> inputVideo (handleSubmit (afterRender f (handleSelectMode m f))) = None
   \<and> inputVideoObject (handleSubmit (afterRender f (handleSelectMode m f))) = None
   \<and> isLooping (handleSubmit (afterRender f (handleSelectMode m f))) = False
   \<and> (isModeSelectorOpen f \<and> m \<in> set selectableModes \<longrightarrow>
        formStep (SelectMode m) f = afterRender f (handleSelectMode m f))"
  by (simp add: handleSubmit_def afterRender_frame handleSelectMode_def formStep_def)

text \<open>
  C5. The claim is that after a mode change no asset of the previous mode survives
  into the new mode. \<^verbatim>\<open>handleSelectMode\<close> clears the cells at the moment of the
  switch, but an upload that was started before the switch and finishes after it
  still calls \<^verbatim>\<open>setStartFrame\<close>: the form, in the mode TEXT_TO_VIDEO, then holds the
  start frame picked in Frames mode, its submit button is enabled, and the submitted
  config carries that frame with the mode TEXT_TO_VIDEO.
\<close>

theorem late_upload_survives_mode_switch:
  "formReachable lateUploadForm
   \<and> generationMode framesForm = FRAMES_TO_VIDEO
   \<and> generationMode switchedForm = TEXT_TO_VIDEO
   \<and> f_startFrame switchedForm = None
   \<and> generationMode lateUploadForm = TEXT_TO_VIDEO
   \<and> \<not> isSubmitDisabled lateUploadForm
   \<and> mode (handleSubmit lateUploadForm) = TEXT_TO_VIDEO
   \<and> startFrame (handleSubmit lateUploadForm) = Some sampleImage"
proof -
  have r: "formReachable lateUploadForm"
    unfolding lateUploadForm_def switchedForm_def framesForm_def
    by (intro formReachable.intros)
  have fr: "generationMode framesForm = FRAMES_TO_VIDEO"
    by (simp add: framesForm_def form_eval)
  have sw: "generationMode switchedForm = TEXT_TO_VIDEO" "f_startFrame switchedForm = None"
    by (simp_all add: switchedForm_def framesForm_def form_eval)
  have late: "generationMode lateUploadForm = TEXT_TO_VIDEO"
    "f_startFrame lateUploadForm = Some sampleImage"
    "f_prompt lateUploadForm = ''A lab at night''"
    by (simp_all add: lateUploadForm_def switchedForm_def framesForm_def form_eval)
  have en: "\<not> isSubmitDisabled lateUploadForm"
    by (simp add: isSubmitDisabled_def submitGate_def late trim_def isWhiteSpace_def)
  have sub: "mode (handleSubmit lateUploadForm) = TEXT_TO_VIDEO"
    "startFrame (handleSubmit lateUploadForm) = Some sampleImage"
    by (simp_all add: handleSubmit_def late)
  from r fr sw late en sub show ?thesis by simp
qed

subsection \<open>Forced fields\<close>

lemma modeEffect_inv: "formInv (modeEffect (generationMode f) f)"
  by (simp add: formInv_def modeEffect_def)

lemma mount_inv: "formInv (mountForm iv)"
  by (cases iv)
     (simp_all add: formInv_def mountForm_def initialForm_def initialValuesEffect_def
        modeEffect_def Let_def)

lemma afterRender_inv:
  assumes "formInv before"
    and "generationMode f = generationMode before \<Longrightarrow> formInv f"
  shows "formInv (afterRender before f)"
  using assms by (simp add: afterRender_def modeEffect_inv)

lemma handler_keeps:
  assumes "formInv f" "generationMode (formHandler e f) = generationMode f"
  shows "formInv (formHandler e f)"
  using assms
  by (cases e)
     (auto simp: formInv_def isReferenceMode_def isExtendMode_def handleSelectMode_def)

lemma step_inv: "formInv f \<Longrightarrow> formInv (formStep e f)"
  unfolding formStep_def by (rule afterRender_inv) (simp_all add: handler_keeps)

lemma reachable_inv: "formReachable f \<Longrightarrow> formInv f"
  by (induction rule: formReachable.induct) (simp_all add: mount_inv step_inv)


text \<open>
  C4. In every state the form can reach, from any initial values, if the mode is
  REFERENCES_TO_VIDEO then the submitted config has the high-quality model, the
  landscape aspect ratio and the resolution 720p, and the three selects change
  nothing; if the mode is EXTEND_VIDEO then the resolution is 720p and its select
  changes nothing. Switching to REFERENCES_TO_VIDEO forces the three fields whatever
  they were before.
\<close>

theorem forced_overrides:
  assumes "formReachable f"
  shows "(generationMode f = REFERENCES_TO_VIDEO \<longrightarrow>
            model (handleSubmit f) = VEO
          \<and> aspectRatio (handleSubmit f) = LANDSCAPE
          \<and> resolution (handleSubmit f) = P720
          \<and> (\<forall>v. formStep (ChangeModel v) f = f)
          \<and> (\<forall>a. formStep (ChangeAspectRatio a) f = f)
          \<and> (\<forall>r. formStep (ChangeResolution r) f = f))
       \<and> (generationMode f = EXTEND_VIDEO \<longrightarrow>
            resolution (handleSubmit f) = P720 \<and> (\<forall>r. formStep (ChangeResolution r) f = f))
       \<and> (isModeSelectorOpen f \<longrightarrow>
            generationMode (formStep (SelectMode REFERENCES_TO_VIDEO) f) = REFERENCES_TO_VIDEO
          \<and> f_model (formStep (SelectMode REFERENCES_TO_VIDEO) f) = VEO
          \<and> f_aspectRatio (formStep (SelectMode REFERENCES_TO_VIDEO) f) = LANDSCAPE
          \<and> f_resolution (formStep (SelectMode REFERENCES_TO_VIDEO) f) = P720)"
proof -
  have inv: "formInv f" using assms by (rule reachable_inv)
  have locked: "formStep (ChangeModel v) f = f" "formStep (ChangeAspectRatio a) f = f"
    "formStep (ChangeResolution r) f = f"
    if "generationMode f = REFERENCES_TO_VIDEO" for v a r
    using that by (simp_all add: formStep_def afterRender_def isReferenceMode_def)
  have locked_ext: "formStep (ChangeResolution r) f = f"
    if "generationMode f = EXTEND_VIDEO" for r
    using that by (simp add: formStep_def afterRender_def isExtendMode_def)
  have sel: "formInv (formStep (SelectMode REFERENCES_TO_VIDEO) f)"
    using inv by (rule step_inv)
  have selm: "generationMode (formStep (SelectMode REFERENCES_TO_VIDEO) f) = REFERENCES_TO_VIDEO"
    if "isModeSelectorOpen f"
    using that
    by (simp add: formStep_def afterRender_def handleSelectMode_def selectableModes_def
        modeEffect_def)
  have sub: "model (handleSubmit f) = f_model f" "aspectRatio (handleSubmit f) = f_aspectRatio f"
    "resolution (handleSubmit f) = f_resolution f"
    by (simp_all add: handleSubmit_def)
  from inv locked locked_ext sel selm show ?thesis
    unfolding sub formInv_def by blast
qed

theorem forced_overrides_witness:
  "formReachable referencesForm
   \<and> generationMode referencesForm = REFERENCES_TO_VIDEO
   \<and> model (handleSubmit referencesForm) = VEO
   \<and> aspectRatio (handleSubmit referencesForm) = LANDSCAPE
   \<and> resolution (handleSubmit referencesForm) = P720
   \<and> f_resolution (formStep (ChangeResolution P4K) (formStep ToggleSettings (mountForm None))) = P4K
   \<and> formReachable extendDraftForm
   \<and> generationMode extendDraftForm = EXTEND_VIDEO
   \<and> resolution (sampleParams\<lparr>mode := EXTEND_VIDEO, resolution := P4K\<rparr>) = P4K
   \<and> resolution (handleSubmit extendDraftForm) = P720"
proof -
  have r: "formReachable referencesForm"
    unfolding referencesForm_def by (intro formReachable.intros)
  have m: "generationMode referencesForm = REFERENCES_TO_VIDEO"
    by (simp add: referencesForm_def form_eval)
  have b: "f_resolution (formStep (ChangeResolution P4K) (formStep ToggleSettings (mountForm None))) = P4K"
    by (simp add: form_eval)
  have r2: "formReachable extendDraftForm"
    unfolding extendDraftForm_def by (intro formReachable.intros)
  have m2: "generationMode extendDraftForm = EXTEND_VIDEO"
    by (simp add: extendDraftForm_def form_eval Let_def)
  from r m b r2 m2 forced_overrides [OF r] forced_overrides [OF r2] show ?thesis by simp
qed

subsection \<open>Hidden dialogue panel\<close>

text \<open>
  C10. If the dialogue panel is hidden when the form is submitted, the submitted config
  has no dialogue and the speaker NONE, whatever was typed while the panel was open,
  and the attempt started with it makes no speech call.
\<close>

theorem hidden_dialogue_no_speech:
  assumes "\<not> showDialogueInput f"
  shows "dialogue (handleSubmit f) = None
       \<and> speaker (handleSubmit f) = NONE
       \<and> \<not> speechRequested (handleSubmit f)
       \<and> (\<forall>t sp. GenerateSpeech t sp \<notin> set (snd (handleGenerate w (handleSubmit f) s)))"
proof -
  have d: "dialogue (handleSubmit f) = None" and sp: "speaker (handleSubmit f) = NONE"
    using assms by (simp_all add: handleSubmit_def)
  have nr: "\<not> speechRequested (handleSubmit f)"
    by (simp add: speechRequested_def d truthy_def)
  have "GenerateSpeech t sp \<notin> set (snd (handleGenerate w (handleSubmit f) s))" for t sp
    by (simp add: handleGenerate_calls launched_def nr split: option.split check.split)
  with d sp nr show ?thesis by blast
qed

theorem hidden_dialogue_no_speech_witness:
  "\<not> showDialogueInput hiddenDialogueForm
   \<and> f_dialogue hiddenDialogueForm = ''Hello'' \<and> f_speaker hiddenDialogueForm = ELENA
   \<and> dialogue (handleSubmit hiddenDialogueForm) = None
   \<and> speaker (handleSubmit hiddenDialogueForm) = NONE
   \<and> snd (handleGenerate sampleWorld (handleSubmit hiddenDialogueForm) initialApp) =
        [HasSelectedApiKey, GenerateVideo (handleSubmit hiddenDialogueForm)]"
proof -
  have h: "\<not> showDialogueInput hiddenDialogueForm"
    by (simp add: hiddenDialogueForm_def formStep_def afterRender_def mountForm_def
        initialForm_def initialValuesEffect_def modeEffect_def)
  have v: "f_dialogue hiddenDialogueForm = ''Hello'' \<and> f_speaker hiddenDialogueForm = ELENA"
    by (simp add: hiddenDialogueForm_def formStep_def afterRender_def mountForm_def
        initialForm_def initialValuesEffect_def modeEffect_def)
  from hidden_dialogue_no_speech [OF h, of sampleWorld initialApp]
  have c: "dialogue (handleSubmit hiddenDialogueForm) = None"
    "speaker (handleSubmit hiddenDialogueForm) = NONE"
    "\<not> speechRequested (handleSubmit hiddenDialogueForm)"
    by simp_all
  have "snd (handleGenerate sampleWorld (handleSubmit hiddenDialogueForm) initialApp) =
        [HasSelectedApiKey, GenerateVideo (handleSubmit hiddenDialogueForm)]"
    by (simp add: handleGenerate_calls launched_def c sampleWorld_def)
  with h v c show ?thesis by simp
qed

subsection \<open>Frame extraction\<close>

text \<open>
  C9. For a video of duration D seconds the seek target is D - 0.1 when D > 0.5 and 0
  otherwise; D = 10 gives 9.9 and D = 0.3 gives 0.
\<close>

theorem seek_rule:
  "(D > 0.5 \<longrightarrow> seekTarget D = D - 0.1) \<and> (\<not> D > 0.5 \<longrightarrow> seekTarget D = 0)
   \<and> seekTarget 10 = 9.9 \<and> seekTarget 0.3 = 0"
  by (simp add: seekTarget_def)

theorem seek_rule_witness:
  "(10::real) > 0.5 \<and> seekTarget 10 = 10 - 0.1 \<and> \<not> (0.3::real) > 0.5 \<and> seekTarget 0.3 = 0"
  using seek_rule [of 10] seek_rule [of "0.3"] by simp

section \<open>Properties of the result view\<close>

lemma onFailure_current: "currentIsLast s \<Longrightarrow> currentIsLast (onFailure e s)"
  by (simp add: currentIsLast_def onFailure_def Let_def split: prod.split)

lemma onSuccess_current: "currentIsLast (onSuccess w p v r s)"
  by (simp add: currentIsLast_def onSuccess_def Let_def)

lemma handleGenerate_current:
  assumes "currentIsLast s"
  shows "currentIsLast (fst (handleGenerate w p s))"
proof -
  let ?s1 = "s\<lparr>appState := LOADING, errorMessage := None, lastConfig := Some p,
               initialFormValues := None\<rparr>"
  have s1: "currentIsLast ?s1" using assms by (simp add: currentIsLast_def)
  have d: "currentIsLast (s\<lparr>showApiKeyDialog := True\<rparr>)"
    using assms by (simp add: currentIsLast_def)
  show ?thesis
    using d onFailure_current [OF s1] onSuccess_current [of w p _ _ ?s1]
    by (auto simp: handleGenerate_def Let_def split: option.split check.split sum.split prod.split)
qed

lemma handleRetry_current:
  "currentIsLast s \<Longrightarrow> currentIsLast (fst (handleRetry w s))"
  by (simp add: handleRetry_def handleGenerate_current split: option.split)

lemma continue_current:
  assumes "currentIsLast s"
  shows "currentIsLast (fst (handleApiKeyDialogContinue w s))"
proof -
  have d: "currentIsLast (s\<lparr>showApiKeyDialog := False\<rparr>)"
    using assms by (simp add: currentIsLast_def)
  show ?thesis
    using d handleRetry_current [OF d, of w]
    by (cases "handleRetry w (s\<lparr>showApiKeyDialog := False\<rparr>)")
       (auto simp: handleApiKeyDialogContinue_def Let_def)
qed

lemma newVideo_current: "currentIsLast (handleNewVideo s)"
  by (simp add: currentIsLast_def handleNewVideo_def)

lemma addScene_current: "currentIsLast s \<Longrightarrow> currentIsLast (handleAddScene s)"
  by (auto simp: currentIsLast_def handleAddScene_def handleNewVideo_def Let_def
      split: option.split)

lemma tryAgain_current: "currentIsLast s \<Longrightarrow> currentIsLast (handleTryAgainFromError s)"
  by (auto simp: currentIsLast_def handleTryAgainFromError_def handleNewVideo_def
      split: option.split)

lemma extend_current: "currentIsLast s \<Longrightarrow> currentIsLast (handleExtend w s)"
  by (auto simp: currentIsLast_def handleExtend_def showStatusError_def Let_def
      split: option.split)

lemma start_current: "currentIsLast (fst (checkApiKey w initialApp))"
  by (simp add: currentIsLast_def checkApiKey_def initialApp_def
      split: option.split check.split)

lemma appReachable_current: "appReachable s \<Longrightarrow> currentIsLast s"
  by (induction rule: appReachable.induct)
     (simp_all add: start_current handleGenerate_current handleRetry_current
        continue_current newVideo_current addScene_current tryAgain_current
        extend_current)

lemma find_last_distinct:
  assumes "distinct (map seg_id xs)" "xs \<noteq> []"
  shows "find (\<lambda>seg. seg_id seg = seg_id (last xs)) xs = Some (last xs)"
  using assms
proof (induction xs)
  case Nil
  then show ?case by simp
next
  case (Cons x xs)
  show ?case
  proof (cases "xs = []")
    case True
    then show ?thesis by simp
  next
    case False
    then have "last xs \<in> set xs" by simp
    then have "seg_id (last xs) \<in> seg_id ` set xs" by blast
    with Cons.prems have "seg_id x \<noteq> seg_id (last xs)" by auto
    with False Cons show ?thesis by simp
  qed
qed

lemma find_gives:
  assumes "find P xs = Some x"
  shows "P x \<and> x \<in> set xs"
  using assms by (induction xs) (auto split: if_splits)

lemma currentSegment_id:
  assumes "appReachable s" "currentSegment s = Some cur"
  shows "seg_id cur = seg_id (last (timeline s))"
proof -
  from assms(2) obtain i where i: "currentSegmentId s = Some i"
    and f: "find (\<lambda>seg. seg_id seg = i) (timeline s) = Some cur"
    by (auto simp: currentSegment_def split: option.splits)
  from find_gives [OF f] have "seg_id cur = i" "timeline s \<noteq> []" by auto
  with appReachable_current [OF assms(1)] i show ?thesis
    by (simp add: currentIsLast_def)
qed

lemma currentSegment_last:
  assumes "appReachable s" "currentSegment s = Some cur"
    and "distinct (map seg_id (timeline s))"
  shows "cur = last (timeline s)"
proof -
  from assms(2) obtain i where i: "currentSegmentId s = Some i"
    and f: "find (\<lambda>seg. seg_id seg = i) (timeline s) = Some cur"
    by (auto simp: currentSegment_def split: option.splits)
  from find_gives [OF f] have ne: "timeline s \<noteq> []" by auto
  with appReachable_current [OF assms(1)] i
  have "i = seg_id (last (timeline s))" by (simp add: currentIsLast_def)
  with f find_last_distinct [OF assms(3) ne] show ?thesis by simp
qed

lemma start_playing:
  assumes "2 \<le> length segs" "\<not> isPlayingStory v"
  shows "resultStep segs cur TogglePlayStory v =
           \<lparr>isPlayingStory = True, storyIndex = 0, viewingSegment = segs ! 0\<rparr>"
  using assms by (auto simp: resultStep_def togglePlayStory_def viewEffects_def Let_def)

lemma ended_advances:
  assumes "Suc k < length segs"
  shows "resultStep segs cur VideoEnded
           \<lparr>isPlayingStory = True, storyIndex = k, viewingSegment = x\<rparr> =
         \<lparr>isPlayingStory = True, storyIndex = Suc k, viewingSegment = segs ! Suc k\<rparr>"
  using assms by (simp add: resultStep_def handleVideoEnded_def viewEffects_def Let_def)

lemma ended_at_last:
  assumes "Suc k = length segs"
  shows "resultStep segs cur VideoEnded
           \<lparr>isPlayingStory = True, storyIndex = k, viewingSegment = x\<rparr> =
         \<lparr>isPlayingStory = False, storyIndex = 0, viewingSegment = cur\<rparr>"
  using assms by (auto simp: resultStep_def handleVideoEnded_def viewEffects_def Let_def)

lemma ended_playing:
  assumes "k < length segs"
  shows "ended segs cur k \<lparr>isPlayingStory = True, storyIndex = 0, viewingSegment = segs ! 0\<rparr> =
         \<lparr>isPlayingStory = True, storyIndex = k, viewingSegment = segs ! k\<rparr>"
  using assms by (induction k) (simp_all add: ended_advances)

lemma ended_all:
  assumes "segs \<noteq> []"
  shows "ended segs cur (length segs)
           \<lparr>isPlayingStory = True, storyIndex = 0, viewingSegment = segs ! 0\<rparr> =
         \<lparr>isPlayingStory = False, storyIndex = 0, viewingSegment = cur\<rparr>"
proof -
  from assms obtain k where k: "length segs = Suc k" by (cases segs) auto
  then have "k < length segs" by simp
  from ended_playing [OF this] k show ?thesis by (simp add: ended_at_last)
qed

text \<open>
  The sequencing of playback, for a reachable state of the application with its
  current segment \<open>cur\<close> and at least two segments: starting enters the playing
  state at index 0; after k "ended" signals, for k below the number of segments, the
  view is playing segment k; after as many signals as there are segments, playback is
  off and the view shows \<open>cur\<close>. The segment \<open>cur\<close> carries the id of the most recent
  segment, and is that segment when the ids of the timeline are distinct.
\<close>

lemma playback_steps:
  assumes "appReachable s" and "currentSegment s = Some cur"
    and "2 \<le> length (timeline s)" and "\<not> isPlayingStory v"
  shows "isPlayingStory (resultStep (timeline s) cur TogglePlayStory v)
       \<and> storyIndex (resultStep (timeline s) cur TogglePlayStory v) = 0
       \<and> (\<forall>k. k < length (timeline s) \<longrightarrow>
             ended (timeline s) cur k (resultStep (timeline s) cur TogglePlayStory v) =
               \<lparr>isPlayingStory = True, storyIndex = k, viewingSegment = timeline s ! k\<rparr>)
       \<and> ended (timeline s) cur (length (timeline s))
             (resultStep (timeline s) cur TogglePlayStory v) =
               \<lparr>isPlayingStory = False, storyIndex = 0, viewingSegment = cur\<rparr>
       \<and> seg_id cur = seg_id (last (timeline s))
       \<and> (distinct (map seg_id (timeline s)) \<longrightarrow> cur = last (timeline s))
       \<and> (\<forall>segs' v'. length segs' < 2 \<longrightarrow> resultStep segs' cur TogglePlayStory v' = v')"
proof -
  from assms(3) have ne: "timeline s \<noteq> []" by auto
  have st: "resultStep (timeline s) cur TogglePlayStory v =
            \<lparr>isPlayingStory = True, storyIndex = 0, viewingSegment = timeline s ! 0\<rparr>"
    using assms(3,4) by (rule start_playing)
  have off: "resultStep segs' c TogglePlayStory v' = v'" if "length segs' < 2" for segs' c v'
    using that by (simp add: resultStep_def viewEffects_def)
  have recent: "seg_id cur = seg_id (last (timeline s))"
    using assms(1,2) by (rule currentSegment_id)
  have same: "cur = last (timeline s)" if "distinct (map seg_id (timeline s))"
    using assms(1,2) that by (rule currentSegment_last)
  show ?thesis
    using off recent same by (simp add: st ended_playing ended_all [OF ne])
qed

lemma twoSameScenes_timeline:
  "timeline twoSameScenes =
     [\<lparr>seg_id = 5, videoUrl = ''blob:1'', audioUrl = Some ''blob:a'',
       seg_prompt = ''A lab at night'', seg_dialogue = Some ''Hello'', seg_speaker = ELENA\<rparr>,
      \<lparr>seg_id = 5, videoUrl = ''blob:2'', audioUrl = Some ''blob:a'',
       seg_prompt = ''A lab at night'', seg_dialogue = Some ''Hello'', seg_speaker = ELENA\<rparr>]
   \<and> currentSegmentId twoSameScenes = Some 5"
  by (simp add: twoSameScenes_def handleGenerate_def promiseAll_def onSuccess_def
      newSegment_def checkApiKey_def sampleWorld_def sampleVideo_def secondVideo_def
      speechRequested_def sampleParams_def truthy_def initialApp_def Let_def)

text \<open>
  C7. The claim is that the "ended" signal at the last index reverts the view to the
  most recent segment and not to index 0. The view reverts to \<^verbatim>\<open>currentSegment\<close>,
  which \<^verbatim>\<open>App\<close> finds by the id \<^verbatim>\<open>Date.now().toString()\<close> of the segment appended
  last. When two attempts succeed while the clock reads the same millisecond, both
  segments carry that id, the search stops at the first of them, and playback of the
  two-segment timeline ends with the view on segment 0, which is not the most recent
  one.
\<close>

theorem playback_reverts_to_first_of_equal_ids:
  "appReachable twoSameScenes
   \<and> map seg_id (timeline twoSameScenes) = [5, 5]
   \<and> map videoUrl (timeline twoSameScenes) = [''blob:1'', ''blob:2'']
   \<and> currentSegment twoSameScenes = Some (timeline twoSameScenes ! 0)
   \<and> ended (timeline twoSameScenes) (timeline twoSameScenes ! 0) 2
         (resultStep (timeline twoSameScenes) (timeline twoSameScenes ! 0) TogglePlayStory
            (mountResult (timeline twoSameScenes ! 0))) =
       \<lparr>isPlayingStory = False, storyIndex = 0, viewingSegment = timeline twoSameScenes ! 0\<rparr>
   \<and> timeline twoSameScenes ! 0 \<noteq> last (timeline twoSameScenes)"
proof -
  let ?segs = "timeline twoSameScenes"
  have r: "appReachable twoSameScenes"
    unfolding twoSameScenes_def by (intro appReachable.intros)
  have ids: "map seg_id ?segs = [5, 5]" and urls: "map videoUrl ?segs = [''blob:1'', ''blob:2'']"
    by (simp_all add: twoSameScenes_timeline)
  have c: "currentSegment twoSameScenes = Some (?segs ! 0)"
    by (simp add: currentSegment_def twoSameScenes_timeline)
  have len: "length ?segs = 2" by (simp add: twoSameScenes_timeline)
  then have l: "2 \<le> length ?segs" by simp
  have np: "\<not> isPlayingStory (mountResult (?segs ! 0))" by (simp add: mountResult_def)
  from playback_steps [OF r c l np]
  have "ended ?segs (?segs ! 0) (length ?segs)
          (resultStep ?segs (?segs ! 0) TogglePlayStory (mountResult (?segs ! 0))) =
        \<lparr>isPlayingStory = False, storyIndex = 0, viewingSegment = ?segs ! 0\<rparr>"
    by simp
  then have fin: "ended ?segs (?segs ! 0) 2
          (resultStep ?segs (?segs ! 0) TogglePlayStory (mountResult (?segs ! 0))) =
        \<lparr>isPlayingStory = False, storyIndex = 0, viewingSegment = ?segs ! 0\<rparr>"
    by (simp only: len)
  have ne: "?segs ! 0 \<noteq> last ?segs" by (simp add: twoSameScenes_timeline)
  from r ids urls c fin ne show ?thesis by blast
qed

end
